theory Spec2Isabelle
  imports Complex_Main
begin

section \<open>Python values\<close>

text \<open>
  A Python \<open>str\<close> is a sequence of Unicode code points: \<open>len\<close> counts code points and
  \<open>s[:3]\<close> takes three of them. A string is therefore a list of code points, and
  \<open>asc\<close> turns an ASCII literal into one.
\<close>

type_synonym pystr = "nat list"

definition asc :: "string \<Rightarrow> pystr" where
  "asc s = map of_char s"

text \<open>
  The values \<open>r.json()\<close> produces. A float is a finite value, an infinity or a NaN
  (the standard library's decoder accepts \<open>Infinity\<close> and \<open>NaN\<close>); a dict keeps its
  items in insertion order.
\<close>

datatype pyfloat = Finite real | PosInf | NegInf | NaN

datatype json =
    JNull
  | JBool bool
  | JInt int
  | JFloat pyfloat
  | JStr pystr
  | JList "json list"
  | JDict "(pystr \<times> json) list"

text \<open>
  The exceptions the code can raise. \<open>HTTPException\<close> carries its status code and
  detail; every other exception is unhandled by the handlers and reaches the framework.
\<close>

datatype pyexc =
    ValueError | TypeError | OverflowError | AttributeError | JSONDecodeError | TransportError

datatype failure = HTTPException int pystr | Unhandled pyexc

text \<open>
  What the interpreter and its Unicode database contribute and the repository does not
  define: the decimal value of a non-ASCII decimal digit (used by \<open>int\<close>), the non-ASCII
  code points \<open>str.isdigit\<close> accepts, the limit on the number of digits \<open>int\<close> converts
  (0 disables it), and \<open>str\<close> of a float, a list or a dict. ASCII behaviour is fixed
  by the definitions below and never consults these.
\<close>

record pyrt =
  ucd_decimal :: "nat \<Rightarrow> nat option"
  ucd_digit :: "nat \<Rightarrow> bool"
  max_str_digits :: nat
  str_other :: "json \<Rightarrow> pystr"

subsection \<open>Truthiness, \<open>dict.get\<close>, \<open>or\<close>\<close>

fun truthy :: "json \<Rightarrow> bool" where
  "truthy JNull = False"
| "truthy (JBool b) = b"
| "truthy (JInt n) = (n \<noteq> 0)"
| "truthy (JFloat f) = (f \<noteq> Finite 0)"
| "truthy (JStr s) = (s \<noteq> [])"
| "truthy (JList xs) = (xs \<noteq> [])"
| "truthy (JDict kv) = (kv \<noteq> [])"

definition py_or :: "json \<Rightarrow> json \<Rightarrow> json" where
  "py_or x d = (if truthy x then x else d)"

definition dict_get :: "(pystr \<times> json) list \<Rightarrow> pystr \<Rightarrow> json" where
  "dict_get kv k = (case map_of kv k of None \<Rightarrow> JNull | Some v \<Rightarrow> v)"

definition dict_get_default :: "(pystr \<times> json) list \<Rightarrow> pystr \<Rightarrow> json \<Rightarrow> json" where
  "dict_get_default kv k d = (case map_of kv k of None \<Rightarrow> d | Some v \<Rightarrow> v)"

fun is_dict :: "json \<Rightarrow> bool" where
  "is_dict (JDict kv) = True"
| "is_dict _ = False"

subsection \<open>\<open>str\<close> of a value\<close>

fun digits_of_nat :: "nat \<Rightarrow> pystr" where
  "digits_of_nat n =
     (if n < 10 then [48 + n] else digits_of_nat (n div 10) @ [48 + n mod 10])"

declare digits_of_nat.simps [simp del]

definition str_of_int :: "int \<Rightarrow> pystr" where
  "str_of_int i = (if i < 0 then 45 # digits_of_nat (nat (- i)) else digits_of_nat (nat i))"

fun py_str :: "pyrt \<Rightarrow> json \<Rightarrow> pystr" where
  "py_str rt (JStr s) = s"
| "py_str rt (JInt i) = str_of_int i"
| "py_str rt (JBool b) = (if b then asc ''True'' else asc ''False'')"
| "py_str rt JNull = asc ''None''"
| "py_str rt v = str_other rt v"

subsection \<open>\<open>str.strip\<close>, \<open>str.isdigit\<close>, \<open>int\<close>\<close>

text \<open>The code points for which \<open>str.isspace\<close> holds; \<open>strip()\<close> removes them.\<close>

definition is_space :: "nat \<Rightarrow> bool" where
  "is_space c \<longleftrightarrow>
     (9 \<le> c \<and> c \<le> 13) \<or> (28 \<le> c \<and> c \<le> 32) \<or> c = 133 \<or> c = 160 \<or> c = 5760 \<or>
     (8192 \<le> c \<and> c \<le> 8202) \<or> c = 8232 \<or> c = 8233 \<or> c = 8239 \<or> c = 8287 \<or> c = 12288"

definition py_strip :: "pystr \<Rightarrow> pystr" where
  "py_strip s = rev (dropWhile is_space (rev (dropWhile is_space s)))"

definition lstrip_ch :: "nat \<Rightarrow> pystr \<Rightarrow> pystr" where
  "lstrip_ch c s = dropWhile (\<lambda>x. x = c) s"

definition rstrip_ch :: "nat \<Rightarrow> pystr \<Rightarrow> pystr" where
  "rstrip_ch c s = rev (dropWhile (\<lambda>x. x = c) (rev s))"

definition is_digit_cp :: "pyrt \<Rightarrow> nat \<Rightarrow> bool" where
  "is_digit_cp rt c \<longleftrightarrow> (48 \<le> c \<and> c \<le> 57) \<or> (128 \<le> c \<and> ucd_digit rt c)"

definition py_isdigit :: "pyrt \<Rightarrow> pystr \<Rightarrow> bool" where
  "py_isdigit rt s \<longleftrightarrow> s \<noteq> [] \<and> list_all (is_digit_cp rt) s"

definition digit_val :: "pyrt \<Rightarrow> nat \<Rightarrow> nat option" where
  "digit_val rt c =
     (if 48 \<le> c \<and> c \<le> 57 then Some (c - 48)
      else if c < 128 then None
      else ucd_decimal rt c)"

text \<open>
  The digits of an integer literal: decimal digits, with single underscores allowed
  between two digits. \<open>prev\<close> says that the previous character was a digit; the result
  is the value and the number of digits read.
\<close>

fun scan_digits :: "pyrt \<Rightarrow> pystr \<Rightarrow> bool \<Rightarrow> nat \<Rightarrow> nat \<Rightarrow> (nat \<times> nat) option" where
  "scan_digits rt [] prev acc k = (if prev then Some (acc, k) else None)"
| "scan_digits rt (c # cs) prev acc k =
     (if c = 95 then (if prev then scan_digits rt cs False acc k else None)
      else case digit_val rt c of
             None \<Rightarrow> None
           | Some d \<Rightarrow> scan_digits rt cs True (10 * acc + d) (Suc k))"

text \<open>
  \<open>int(s)\<close> for a string: surrounding whitespace is dropped, one sign is allowed, and
  the digit limit applies to literals of more than 640 digits. The whitespace \<open>int\<close>
  drops is that of \<open>str.isspace\<close> without the four ASCII separators 28 to 31, which
  \<open>int\<close> rejects.
\<close>

definition is_int_space :: "nat \<Rightarrow> bool" where
  "is_int_space c \<longleftrightarrow> is_space c \<and> \<not> (28 \<le> c \<and> c \<le> 31)"

definition int_strip :: "pystr \<Rightarrow> pystr" where
  "int_strip s = rev (dropWhile is_int_space (rev (dropWhile is_int_space s)))"

definition py_int_str :: "pyrt \<Rightarrow> pystr \<Rightarrow> pyexc + int" where
  "py_int_str rt s =
     (let t = int_strip s;
          neg = (case t of [] \<Rightarrow> False | c # _ \<Rightarrow> c = 45);
          body = (case t of [] \<Rightarrow> [] | c # r \<Rightarrow> if c = 45 \<or> c = 43 then r else t)
      in case scan_digits rt body False 0 0 of
           None \<Rightarrow> Inl ValueError
         | Some (v, k) \<Rightarrow>
             if 640 < k \<and> 0 < max_str_digits rt \<and> max_str_digits rt < k then Inl ValueError
             else Inr (if neg then - int v else int v))"

definition trunc :: "real \<Rightarrow> int" where
  "trunc x = (if 0 \<le> x then \<lfloor>x\<rfloor> else \<lceil>x\<rceil>)"

fun py_int :: "pyrt \<Rightarrow> json \<Rightarrow> pyexc + int" where
  "py_int rt (JInt i) = Inr i"
| "py_int rt (JBool b) = Inr (if b then 1 else 0)"
| "py_int rt (JStr s) = py_int_str rt s"
| "py_int rt (JFloat (Finite x)) = Inr (trunc x)"
| "py_int rt (JFloat NaN) = Inl ValueError"
| "py_int rt (JFloat _) = Inl OverflowError"
| "py_int rt _ = Inl TypeError"

subsection \<open>Slices\<close>

text \<open>\<open>xs[a:b]\<close>: a negative bound counts from the end, and both are clamped.\<close>

definition slice_bound :: "nat \<Rightarrow> int \<Rightarrow> nat" where
  "slice_bound n i = (if i < 0 then nat (max 0 (int n + i)) else min n (nat i))"

definition py_slice :: "'a list \<Rightarrow> int \<Rightarrow> int \<Rightarrow> 'a list" where
  "py_slice xs a b =
     (let lo = slice_bound (length xs) a; hi = slice_bound (length xs) b
      in take (hi - lo) (drop lo xs))"

section \<open>Configuration helpers\<close>

text \<open>
  \<open>redact(s)\<close>: \<open>None\<close> and the empty string are falsy and give \<open>***\<close>; a string of
  at most six code points gives the marker alone; a longer one keeps three.
\<close>

fun redact :: "pystr option \<Rightarrow> pystr" where
  "redact None = asc ''***''"
| "redact (Some s) =
     (if s = [] then asc ''***''
      else if length s \<le> 6 then asc ''***REDACTED***''
      else take 3 s @ asc ''...***REDACTED***'')"

text \<open>
  \<open>getenv_int(name, default)\<close>: \<open>os.getenv(name, str(default))\<close> is the variable's
  value when it is set and the default's decimal form otherwise; any failure of \<open>int\<close>
  gives the default.
\<close>

definition getenv_int :: "pyrt \<Rightarrow> (pystr \<rightharpoonup> pystr) \<Rightarrow> pystr \<Rightarrow> int \<Rightarrow> int" where
  "getenv_int rt env name dflt =
     (case py_int_str rt (case env name of None \<Rightarrow> str_of_int dflt | Some v \<Rightarrow> v) of
        Inl _ \<Rightarrow> dflt
      | Inr i \<Rightarrow> i)"

definition require_env :: "(pystr \<rightharpoonup> pystr) \<Rightarrow> pystr \<Rightarrow> pystr option" where
  "require_env env name =
     (case env name of None \<Rightarrow> None | Some v \<Rightarrow> if v = [] then None else Some v)"

text \<open>
  The module-level configuration: the four credentials and two URLs come from
  \<open>require_env\<close>, the two numbers from \<open>getenv_int\<close> with defaults 20 and 60.
\<close>

record config =
  ERP_TOKEN_URL :: pystr
  ERP_API_BASE :: pystr
  ERP_USERNAME :: pystr
  ERP_PASSWORD :: pystr
  ERP_CLIENT_ID :: pystr
  ERP_CLIENT_SECRET :: pystr
  HTTP_TIMEOUT_SECONDS :: int
  TOKEN_SAFETY_SECONDS :: int

definition load_config :: "pyrt \<Rightarrow> (pystr \<rightharpoonup> pystr) \<Rightarrow> config option" where
  "load_config rt env =
     Option.bind (require_env env (asc ''ERP_TOKEN_URL'')) (\<lambda>turl.
     Option.bind (require_env env (asc ''ERP_API_BASE'')) (\<lambda>base.
     Option.bind (require_env env (asc ''ERP_USERNAME'')) (\<lambda>usr.
     Option.bind (require_env env (asc ''ERP_PASSWORD'')) (\<lambda>pwd.
     Option.bind (require_env env (asc ''ERP_CLIENT_ID'')) (\<lambda>cid.
     Option.bind (require_env env (asc ''ERP_CLIENT_SECRET'')) (\<lambda>sec.
       Some \<lparr>ERP_TOKEN_URL = turl, ERP_API_BASE = base, ERP_USERNAME = usr,
             ERP_PASSWORD = pwd, ERP_CLIENT_ID = cid, ERP_CLIENT_SECRET = sec,
             HTTP_TIMEOUT_SECONDS = getenv_int rt env (asc ''ERP_HTTP_TIMEOUT_SECONDS'') 20,
             TOKEN_SAFETY_SECONDS = getenv_int rt env (asc ''ERP_TOKEN_SAFETY_SECONDS'') 60\<rparr>))))))"

section \<open>The network, the clock and the token cache\<close>

text \<open>
  An HTTP response is its status code and its body parsed as JSON (\<open>None\<close> when the
  body is not JSON, so that \<open>r.json()\<close> raises). A call of \<open>client.post\<close> either returns
  a response or raises a transport error (connection failure, timeout).
\<close>

record http_response =
  status_code :: int
  json_body :: "json option"

datatype net_result = Response http_response | NetError

record http_request =
  req_url :: pystr
  req_body :: json
  req_headers :: "(pystr \<times> pystr) list"

datatype call = TokenCall http_request | DataCall http_request

fun is_token_call :: "call \<Rightarrow> bool" where
  "is_token_call (TokenCall q) = True"
| "is_token_call (DataCall q) = False"

fun is_data_call :: "call \<Rightarrow> bool" where
  "is_data_call (DataCall q) = True"
| "is_data_call (TokenCall q) = False"

text \<open>
  The surroundings of one run: the value of the k-th read of \<open>time.time()\<close>, the
  result of the k-th POST to the token URL and of the k-th POST to a data endpoint.
  Nothing is assumed of them; the clock need not even be monotone.
\<close>

record environment =
  clock :: "nat \<Rightarrow> real"
  token_endpoint :: "nat \<Rightarrow> net_result"
  data_endpoint :: "nat \<Rightarrow> net_result"

text \<open>
  The mutable state: the two module globals of the token cache (\<open>None\<close> is Python's
  \<open>None\<close>), the number of clock reads so far, and the log of every POST issued, in
  order. The lock guards no \<open>await\<close>, so in one flow of control taking it changes
  nothing and it is not part of the state.
\<close>

record world =
  access_token :: "json option"
  token_expiry_epoch :: real
  ticks :: nat
  sent :: "call list"

definition n_token_calls :: "world \<Rightarrow> nat" where
  "n_token_calls w = length (filter is_token_call (sent w))"

definition n_data_calls :: "world \<Rightarrow> nat" where
  "n_data_calls w = length (filter is_data_call (sent w))"

text \<open>
  \<open>_token_is_valid()\<close>: the \<open>and\<close> short-circuits, so the clock is read only when a
  token is present.
\<close>

definition token_is_valid :: "environment \<Rightarrow> world \<Rightarrow> bool \<times> world" where
  "token_is_valid e w =
     (case access_token w of
        None \<Rightarrow> (False, w)
      | Some t \<Rightarrow> (clock e (ticks w) < token_expiry_epoch w, w\<lparr>ticks := Suc (ticks w)\<rparr>))"

definition token_request :: "config \<Rightarrow> http_request" where
  "token_request cfg =
     \<lparr>req_url = ERP_TOKEN_URL cfg,
      req_body = JDict [(asc ''grant_type'', JStr (asc ''password'')),
                        (asc ''username'', JStr (ERP_USERNAME cfg)),
                        (asc ''password'', JStr (ERP_PASSWORD cfg)),
                        (asc ''client_id'', JStr (ERP_CLIENT_ID cfg)),
                        (asc ''client_secret'', JStr (ERP_CLIENT_SECRET cfg))],
      req_headers = [(asc ''Content-Type'', asc ''application/x-www-form-urlencoded'')]\<rparr>"

text \<open>
  Adding an \<open>int\<close> to the float \<open>time.time()\<close> converts the \<open>int\<close> to a float first,
  which raises \<open>OverflowError\<close> from this bound on (the least integer that rounds to
  \<open>2 ^ 1024\<close>).
\<close>

definition float_max_int :: int where
  "float_max_int = 2 ^ 1024 - 2 ^ 970"

text \<open>
  \<open>_fetch_token(client)\<close>. Logging is not modelled, except that the last
  \<open>logger.info\<close> evaluates \<open>time.time()\<close> once more for its argument. The conversion
  \<open>int(j.get("expires_in", 0))\<close> comes before the validity test, and \<open>j.get\<close> needs a
  dict. Times are real numbers: the rounding of the float sum is not modelled.
\<close>

definition fetch_token ::
  "pyrt \<Rightarrow> environment \<Rightarrow> config \<Rightarrow> world \<Rightarrow> (failure + json) \<times> world" where
  "fetch_token rt e cfg w =
     (let w1 = w\<lparr>sent := sent w @ [TokenCall (token_request cfg)]\<rparr> in
      case token_endpoint e (n_token_calls w) of
        NetError \<Rightarrow> (Inl (Unhandled TransportError), w1)
      | Response r \<Rightarrow>
          if status_code r < 200 \<or> status_code r \<ge> 300 then
            (Inl (HTTPException 502
                   (asc ''Token request failed ('' @ str_of_int (status_code r) @ asc '')'')), w1)
          else
            (case json_body r of
               None \<Rightarrow> (Inl (Unhandled JSONDecodeError), w1)
             | Some (JDict j) \<Rightarrow>
                 (let token = dict_get j (asc ''access_token'') in
                  case py_int rt (dict_get_default j (asc ''expires_in'') (JInt 0)) of
                    Inl x \<Rightarrow> (Inl (Unhandled x), w1)
                  | Inr expires_in \<Rightarrow>
                      if \<not> truthy token \<or> expires_in \<le> 0 then
                        (Inl (HTTPException 502 (asc ''Token response invalid'')), w1)
                      else if float_max_int \<le> max 0 (expires_in - TOKEN_SAFETY_SECONDS cfg)
                      then (Inl (Unhandled OverflowError), w1\<lparr>ticks := ticks w1 + 1\<rparr>)
                      else
                        (let expiry = clock e (ticks w1)
                                      + of_int (max 0 (expires_in - TOKEN_SAFETY_SECONDS cfg))
                         in (Inr token,
                             w1\<lparr>access_token := Some token,
                                token_expiry_epoch := expiry,
                                ticks := ticks w1 + 2\<rparr>)))
             | Some _ \<Rightarrow> (Inl (Unhandled AttributeError), w1)))"

text \<open>
  \<open>get_token(client)\<close>: the unlocked check, the check under the lock, then the cache
  is cleared and the fetch runs. A valid cache holds a token, so the \<open>None\<close> branches of
  the two returns are never taken.
\<close>

definition get_token ::
  "pyrt \<Rightarrow> environment \<Rightarrow> config \<Rightarrow> world \<Rightarrow> (failure + json) \<times> world" where
  "get_token rt e cfg w =
     (case token_is_valid e w of
        (True, w1) \<Rightarrow> (Inr (case access_token w1 of None \<Rightarrow> JNull | Some t \<Rightarrow> t), w1)
      | (False, w1) \<Rightarrow>
          (case token_is_valid e w1 of
             (True, w2) \<Rightarrow> (Inr (case access_token w2 of None \<Rightarrow> JNull | Some t \<Rightarrow> t), w2)
           | (False, w2) \<Rightarrow> fetch_token rt e cfg (w2\<lparr>access_token := None\<rparr>)))"

text \<open>
  \<open>n\<close> callers of \<open>get_token\<close>, one after another. A call that finds a valid token
  has no suspension point, so under the cooperative scheduler concurrent callers that
  take the fast path run in some such order.
\<close>

fun callers ::
  "pyrt \<Rightarrow> environment \<Rightarrow> config \<Rightarrow> nat \<Rightarrow> world \<Rightarrow> (failure + json) list \<times> world" where
  "callers rt e cfg 0 w = ([], w)"
| "callers rt e cfg (Suc n) w =
     (case get_token rt e cfg w of
        (r, w1) \<Rightarrow> (case callers rt e cfg n w1 of (rs, w2) \<Rightarrow> (r # rs, w2)))"

section \<open>The authenticated call\<close>

fun dict_set :: "('k \<times> 'v) list \<Rightarrow> 'k \<Rightarrow> 'v \<Rightarrow> ('k \<times> 'v) list" where
  "dict_set [] k v = [(k, v)]"
| "dict_set ((k', v') # kv) k v = (if k' = k then (k, v) # kv else (k', v') # dict_set kv k v)"

definition data_url :: "config \<Rightarrow> pystr \<Rightarrow> pystr" where
  "data_url cfg path = rstrip_ch 47 (ERP_API_BASE cfg) @ asc ''/'' @ lstrip_ch 47 path"

definition bearer :: "pyrt \<Rightarrow> json \<Rightarrow> pystr" where
  "bearer rt token = asc ''Bearer '' @ py_str rt token"

definition call_headers :: "pyrt \<Rightarrow> json \<Rightarrow> bool \<Rightarrow> (pystr \<times> pystr) list" where
  "call_headers rt token accept_json =
     [(asc ''Content-Type'', asc ''application/json''), (asc ''Authorization'', bearer rt token)]
     @ (if accept_json then [(asc ''Accept'', asc ''application/json'')] else [])"

text \<open>The last two statements of \<open>erp_post_json\<close>: the status test and \<open>r.json()\<close>.\<close>

definition finish_call :: "http_response \<Rightarrow> failure + json" where
  "finish_call r =
     (if status_code r < 200 \<or> status_code r \<ge> 300 then
        Inl (HTTPException 502 (asc ''ERP call failed ('' @ str_of_int (status_code r) @ asc '')''))
      else case json_body r of None \<Rightarrow> Inl (Unhandled JSONDecodeError) | Some j \<Rightarrow> Inr j)"

text \<open>
  \<open>erp_post_json(path, payload, accept_json, retry_on_401)\<close>. On a 401 the fetch is
  called directly, its result is dropped and the retry reads the token from the cache.
\<close>

definition erp_post_json ::
  "pyrt \<Rightarrow> environment \<Rightarrow> config \<Rightarrow> pystr \<Rightarrow> json \<Rightarrow> bool \<Rightarrow> bool \<Rightarrow> world
   \<Rightarrow> (failure + json) \<times> world" where
  "erp_post_json rt e cfg path payload accept_json retry_on_401 w =
     (let url = data_url cfg path in
      case get_token rt e cfg w of
        (Inl f, w1) \<Rightarrow> (Inl f, w1)
      | (Inr token, w1) \<Rightarrow>
          (let headers = call_headers rt token accept_json;
               w2 = w1\<lparr>sent := sent w1 @
                      [DataCall \<lparr>req_url = url, req_body = payload, req_headers = headers\<rparr>]\<rparr>
           in case data_endpoint e (n_data_calls w1) of
                NetError \<Rightarrow> (Inl (Unhandled TransportError), w2)
              | Response r \<Rightarrow>
                  if status_code r = 401 \<and> retry_on_401 then
                    (case fetch_token rt e cfg w2 of
                       (Inl f, w3) \<Rightarrow> (Inl f, w3)
                     | (Inr t, w3) \<Rightarrow>
                         (let token2 = (case access_token w3 of None \<Rightarrow> JNull | Some t2 \<Rightarrow> t2);
                              headers2 = dict_set headers (asc ''Authorization'') (bearer rt token2);
                              w4 = w3\<lparr>sent := sent w3 @
                                     [DataCall \<lparr>req_url = url, req_body = payload,
                                                req_headers = headers2\<rparr>]\<rparr>
                          in case data_endpoint e (n_data_calls w3) of
                               NetError \<Rightarrow> (Inl (Unhandled TransportError), w4)
                             | Response r2 \<Rightarrow> (finish_call r2, w4)))
                  else (finish_call r, w2)))"

section \<open>Normalizers\<close>

fun join_str :: "pystr \<Rightarrow> pystr list \<Rightarrow> pystr" where
  "join_str sep [] = []"
| "join_str sep [x] = x"
| "join_str sep (x # y # ys) = x @ sep @ join_str sep (y # ys)"

text \<open>\<open>str(d.get(k) or "")\<close>, the idiom of both normalizers.\<close>

definition field_str :: "pyrt \<Rightarrow> (pystr \<times> json) list \<Rightarrow> string \<Rightarrow> pystr" where
  "field_str rt d k = py_str rt (py_or (dict_get d (asc k)) (JStr []))"

text \<open>
  \<open>normalize_alumno(item)\<close>. \<open>persona\<close> is used through \<open>.get\<close> with no type test, so
  a truthy \<open>Persona\<close> that is not a dict raises \<open>AttributeError\<close>.
\<close>

definition normalize_alumno :: "pyrt \<Rightarrow> (pystr \<times> json) list \<Rightarrow> pyexc + json" where
  "normalize_alumno rt item =
     (case py_or (dict_get item (asc ''Persona'')) (JDict []) of
        JDict persona \<Rightarrow>
          (let id_alumno = field_str rt item ''IdIntegracion'';
               nombre = field_str rt persona ''Nombre'';
               a1 = py_strip (field_str rt persona ''Apellido1'');
               a2 = py_strip (field_str rt persona ''Apellido2'');
               apellidos = join_str (asc '' '') (filter (\<lambda>p. p \<noteq> []) [a1, a2]);
               email_personal = field_str rt persona ''Email'';
               id_seguridad = field_str rt persona ''IdSeguridad'';
               telefono = field_str rt persona ''Celular'';
               territorio = field_str rt persona ''IdRefTerritorioDomicilio'';
               id_pais = (if territorio \<noteq> [] then takeWhile (\<lambda>c. c \<noteq> 45) territorio else [])
           in Inr (JDict [(asc ''IdAlumno'', JStr id_alumno),
                          (asc ''Nombre'', JStr nombre),
                          (asc ''Apellidos'', JStr apellidos),
                          (asc ''EmailPersonal'', JStr email_personal),
                          (asc ''IdSeguridad'', JStr id_seguridad),
                          (asc ''Telefono'', JStr telefono),
                          (asc ''IdPais'', JStr id_pais)]))
      | _ \<Rightarrow> Inl AttributeError)"

text \<open>\<open>m.get(k) or {}\<close> followed by the \<open>isinstance\<close> test that replaces a non-dict by \<open>{}\<close>.\<close>

definition sub_dict :: "(pystr \<times> json) list \<Rightarrow> string \<Rightarrow> (pystr \<times> json) list" where
  "sub_dict m k = (case py_or (dict_get m (asc k)) (JDict []) of JDict d \<Rightarrow> d | _ \<Rightarrow> [])"

definition normalize_matricula :: "pyrt \<Rightarrow> (pystr \<times> json) list \<Rightarrow> json" where
  "normalize_matricula rt m =
     (let plan = sub_dict m ''Plan'';
          estado = sub_dict m ''EstadoMatricula'';
          alumno = sub_dict m ''Alumno'';
          doc = sub_dict m ''DocumentoIdentificacionAlumno''
      in JDict [(asc ''IdIntegracionMatricula'', JStr (field_str rt m ''IdIntegracion'')),
                (asc ''IdPlan'', JStr (field_str rt plan ''Id'')),
                (asc ''cEstadoMatricula'', JStr (field_str rt estado ''Id'')),
                (asc ''EstadoMatriculaNombre'', JStr (field_str rt estado ''Nombre'')),
                (asc ''sEstadoMatricula'', JStr []),
                (asc ''IdAlumno'', JStr (field_str rt alumno ''IdIntegracion'')),
                (asc ''TipoDocumento'',
                   JStr (field_str rt doc ''IdRefTipoDocumentoIdentificacionPais'')),
                (asc ''NumeroDocumento'', JStr (field_str rt doc ''Numero''))])"

section \<open>The facade's handlers\<close>

text \<open>
  A handler returns a reply (a returned value is sent with status 200), raises an
  \<open>HTTPException\<close>, which the framework sends with the exception's status, or raises
  anything else, which the framework answers with 500.
\<close>

record reply =
  reply_status :: int
  reply_content :: json

fun http_status :: "failure + reply \<Rightarrow> int" where
  "http_status (Inl (HTTPException s d)) = s"
| "http_status (Inl (Unhandled x)) = 500"
| "http_status (Inr r) = reply_status r"

definition alumnos_payload :: "int \<Rightarrow> int \<Rightarrow> json" where
  "alumnos_payload i itemsPerPage =
     JDict [(asc ''filterIdPlanoOfertado'', JInt 0),
            (asc ''filterHasActiveMatriculas'', JBool True),
            (asc ''filterIdsIntegracion'', JList [JInt i]),
            (asc ''orderColumnName'', JStr []),
            (asc ''orderColumnPosition'', JInt 0),
            (asc ''orderDirection'', JStr []),
            (asc ''pageIndex'', JInt 1),
            (asc ''itemsPerPage'', JInt itemsPerPage)]"

text \<open>
  \<open>aic_alumnos(idAlumno, itemsPerPage)\<close>, entered after the framework has checked that
  \<open>idAlumno\<close> is present and \<open>itemsPerPage\<close> is in range.
\<close>

definition aic_alumnos ::
  "pyrt \<Rightarrow> environment \<Rightarrow> config \<Rightarrow> pystr \<Rightarrow> int \<Rightarrow> world \<Rightarrow> (failure + reply) \<times> world" where
  "aic_alumnos rt e cfg idAlumno itemsPerPage w =
     (let id_str = py_strip idAlumno in
      if \<not> py_isdigit rt id_str then
        (Inl (HTTPException 400 (asc ''idAlumno must be a numeric string'')), w)
      else
        case py_int_str rt id_str of
          Inl x \<Rightarrow> (Inl (Unhandled x), w)
        | Inr i \<Rightarrow>
            (case erp_post_json rt e cfg (asc ''/alumnos/search-list'')
                    (alumnos_payload i itemsPerPage) True True w of
               (Inl f, w1) \<Rightarrow> (Inl f, w1)
             | (Inr (JList (item # rest)), w1) \<Rightarrow>
                 (case item of
                    JDict kv \<Rightarrow>
                      (case normalize_alumno rt kv of
                         Inl x \<Rightarrow> (Inl (Unhandled x), w1)
                       | Inr out \<Rightarrow> (Inr \<lparr>reply_status = 200, reply_content = out\<rparr>, w1))
                  | _ \<Rightarrow>
                      (Inl (HTTPException 502 (asc ''Unexpected alumnos response format'')), w1))
             | (Inr _, w1) \<Rightarrow>
                 (Inr \<lparr>reply_status = 404,
                       reply_content = JDict [(asc ''detail'', JStr (asc ''Alumno not found''))]\<rparr>,
                  w1)))"

definition matriculas_payload :: "int \<Rightarrow> int \<Rightarrow> int \<Rightarrow> json" where
  "matriculas_payload i pageIndex itemsPerPage =
     JDict [(asc ''FilterIdsIntegracionMatriculas'', JList []),
            (asc ''FilterIdsIntegracionAlumnos'', JList [JInt i]),
            (asc ''ProjectAlumno'', JBool True),
            (asc ''ProjectDocumentoIdentificacionAlumno'', JBool True),
            (asc ''ProjectPlan'', JBool True),
            (asc ''PageIndex'', JInt pageIndex),
            (asc ''ItemsPerPage'', JInt itemsPerPage)]"

text \<open>The status name the loop of \<open>aic_matriculas\<close> computes for a record.\<close>

definition estado_nombre :: "pyrt \<Rightarrow> (pystr \<times> json) list \<Rightarrow> pystr" where
  "estado_nombre rt m =
     (case py_or (dict_get m (asc ''EstadoMatricula'')) (JDict []) of
        JDict estado \<Rightarrow> field_str rt estado ''Nombre''
      | _ \<Rightarrow> [])"

text \<open>The \<open>for m in data\<close> loop, with the list \<open>out\<close> it appends to.\<close>

fun matriculas_loop :: "pyrt \<Rightarrow> bool \<Rightarrow> json list \<Rightarrow> json list \<Rightarrow> json list" where
  "matriculas_loop rt onlyActive [] out = out"
| "matriculas_loop rt onlyActive (m # ms) out =
     (case m of
        JDict kv \<Rightarrow>
          if onlyActive \<and> estado_nombre rt kv \<noteq> asc ''Alta''
          then matriculas_loop rt onlyActive ms out
          else matriculas_loop rt onlyActive ms (out @ [normalize_matricula rt kv])
      | _ \<Rightarrow> matriculas_loop rt onlyActive ms out)"


text \<open>
  \<open>aic_matriculas(idAlumno, onlyActive, itemsPerPage, pageIndex, alumnoId)\<close>. The id
  goes to \<open>int\<close> with no test before it.
\<close>

definition aic_matriculas ::
  "pyrt \<Rightarrow> environment \<Rightarrow> config \<Rightarrow> pystr \<Rightarrow> bool \<Rightarrow> int \<Rightarrow> int \<Rightarrow> pystr option \<Rightarrow> world
   \<Rightarrow> (failure + reply) \<times> world" where
  "aic_matriculas rt e cfg idAlumno onlyActive itemsPerPage pageIndex alumnoId w =
     (let id0 = py_strip idAlumno;
          effective_id =
            (case alumnoId of
               None \<Rightarrow> id0
             | Some a \<Rightarrow> if id0 = [] \<and> a \<noteq> [] then py_strip a else id0)
      in if effective_id = [] then
           (Inl (HTTPException 400 (asc ''Missing required parameter: idAlumno'')), w)
         else
           case py_int_str rt effective_id of
             Inl x \<Rightarrow> (Inl (Unhandled x), w)
           | Inr i \<Rightarrow>
               (case erp_post_json rt e cfg (asc ''/matriculas/search-list'')
                       (matriculas_payload i pageIndex itemsPerPage) True True w of
                  (Inl f, w1) \<Rightarrow> (Inl f, w1)
                | (Inr (JList data), w1) \<Rightarrow>
                    (Inr \<lparr>reply_status = 200,
                          reply_content = JList (matriculas_loop rt onlyActive data [])\<rparr>, w1)
                | (Inr _, w1) \<Rightarrow>
                    (Inl (HTTPException 502 (asc ''Unexpected matriculas response format'')),
                     w1)))"

section \<open>The mock upstream's pagination\<close>

text \<open>
  \<open>_get_page_params(payload)\<close>: both \<open>int\<close> conversions sit in \<open>try\<close> blocks that
  catch every exception.
\<close>

definition get_page_params :: "pyrt \<Rightarrow> (pystr \<times> json) list \<Rightarrow> int \<times> int" where
  "get_page_params rt payload =
     (let page_index0 = dict_get_default payload (asc ''PageIndex'')
                          (dict_get_default payload (asc ''pageIndex'') (JInt 1));
          items_per_page0 = dict_get_default payload (asc ''ItemsPerPage'')
                              (dict_get_default payload (asc ''itemsPerPage'') (JInt 10));
          page_index1 = (case py_int rt page_index0 of Inl x \<Rightarrow> 1 | Inr i \<Rightarrow> i);
          items_per_page1 = (case py_int rt items_per_page0 of Inl x \<Rightarrow> 10 | Inr i \<Rightarrow> i);
          page_index = (if page_index1 < 1 then 1 else page_index1);
          items_per_page2 = (if items_per_page1 < 1 then 10 else items_per_page1);
          items_per_page = (if items_per_page2 > 500 then 500 else items_per_page2)
      in (page_index, items_per_page))"

definition paginate :: "'a list \<Rightarrow> int \<Rightarrow> int \<Rightarrow> 'a list" where
  "paginate items page_index items_per_page =
     (let start = (page_index - 1) * items_per_page;
          stop = start + items_per_page
      in py_slice items start stop)"

section \<open>Concrete inputs\<close>

text \<open>
  A runtime for the concrete inputs below. They are ASCII strings and never take \<open>str\<close>
  of a float, a list or a dict, so no table of the runtime is consulted on them and the
  tables are left empty.
\<close>

definition example_rt :: pyrt where
  "example_rt =
     \<lparr>ucd_decimal = (\<lambda>c. None), ucd_digit = (\<lambda>c. False), max_str_digits = 4300,
      str_other = (\<lambda>v. [])\<rparr>"

text \<open>A configuration, and the process environment it is loaded from.\<close>

definition example_cfg :: config where
  "example_cfg =
     \<lparr>ERP_TOKEN_URL = asc ''https://idp.test/token'',
      ERP_API_BASE = asc ''https://erp.test/api/v1/public/'',
      ERP_USERNAME = asc ''svc-user'',
      ERP_PASSWORD = asc ''svc-password'',
      ERP_CLIENT_ID = asc ''facade'',
      ERP_CLIENT_SECRET = asc ''s3cr3t-value'',
      HTTP_TIMEOUT_SECONDS = 20,
      TOKEN_SAFETY_SECONDS = 60\<rparr>"

definition example_environ :: "pystr \<rightharpoonup> pystr" where
  "example_environ =
     map_of [(asc ''ERP_TOKEN_URL'', asc ''https://idp.test/token''),
             (asc ''ERP_API_BASE'', asc ''https://erp.test/api/v1/public/''),
             (asc ''ERP_USERNAME'', asc ''svc-user''),
             (asc ''ERP_PASSWORD'', asc ''svc-password''),
             (asc ''ERP_CLIENT_ID'', asc ''facade''),
             (asc ''ERP_CLIENT_SECRET'', asc ''s3cr3t-value'')]"

text \<open>The cache as the module initialises it, and a cache holding a token until 5000.\<close>

definition cold_world :: world where
  "cold_world = \<lparr>access_token = None, token_expiry_epoch = 0, ticks = 0, sent = []\<rparr>"

definition warm_world :: world where
  "warm_world =
     \<lparr>access_token = Some (JStr (asc ''tok-0'')), token_expiry_epoch = 5000, ticks = 0,
      sent = []\<rparr>"

text \<open>Responses of the token endpoint and of a data endpoint.\<close>

definition token_ok :: net_result where
  "token_ok = Response \<lparr>status_code = 200,
     json_body = Some (JDict [(asc ''access_token'', JStr (asc ''tok-1'')),
                              (asc ''token_type'', JStr (asc ''bearer'')),
                              (asc ''expires_in'', JInt 1199)])\<rparr>"

definition token_null_expiry :: net_result where
  "token_null_expiry = Response \<lparr>status_code = 200,
     json_body = Some (JDict [(asc ''token_type'', JStr (asc ''bearer'')),
                              (asc ''expires_in'', JNull)])\<rparr>"

definition token_not_json :: net_result where
  "token_not_json = Response \<lparr>status_code = 200, json_body = None\<rparr>"

definition token_down :: net_result where
  "token_down = Response \<lparr>status_code = 500, json_body = None\<rparr>"

definition unauthorized :: net_result where
  "unauthorized = Response \<lparr>status_code = 401,
     json_body = Some (JDict [(asc ''detail'', JStr (asc ''Token expired''))])\<rparr>"

definition empty_page :: net_result where
  "empty_page = Response \<lparr>status_code = 200, json_body = Some (JList [])\<rparr>"

text \<open>
  Surroundings: the clock starts at 1000 and advances by one per read. The token endpoint
  issues \<open>tok-1\<close> or is down; the data endpoint answers 401 once and then an empty page,
  or 401 every time.
\<close>

definition issuing_env :: environment where
  "issuing_env =
     \<lparr>clock = (\<lambda>k. 1000 + real k), token_endpoint = (\<lambda>k. token_ok),
      data_endpoint = (\<lambda>k. NetError)\<rparr>"

definition refetch_fails_env :: environment where
  "refetch_fails_env =
     \<lparr>clock = (\<lambda>k. 1000 + real k), token_endpoint = (\<lambda>k. token_down),
      data_endpoint = (\<lambda>k. unauthorized)\<rparr>"

definition retry_ok_env :: environment where
  "retry_ok_env =
     \<lparr>clock = (\<lambda>k. 1000 + real k), token_endpoint = (\<lambda>k. token_ok),
      data_endpoint = (\<lambda>k. if k = 0 then unauthorized else empty_page)\<rparr>"

definition retry_401_env :: environment where
  "retry_401_env =
     \<lparr>clock = (\<lambda>k. 1000 + real k), token_endpoint = (\<lambda>k. token_ok),
      data_endpoint = (\<lambda>k. unauthorized)\<rparr>"

text \<open>
  Upstream records. \<open>P\<close>, \<open>U+00E9\<close>, \<open>r\<close>, \<open>e\<close>, \<open>z\<close> is the family name of the student;
  an enrollment has an integration id and a status name.
\<close>

definition perez :: pystr where
  "perez = asc ''P'' @ [233] @ asc ''rez''"

definition student_ana :: "(pystr \<times> json) list" where
  "student_ana =
     [(asc ''IdIntegracion'', JStr (asc ''988224'')),
      (asc ''Persona'',
         JDict [(asc ''Nombre'', JStr (asc ''Ana'')),
                (asc ''Apellido1'', JStr perez),
                (asc ''Apellido2'', JStr []),
                (asc ''IdRefTerritorioDomicilio'', JStr (asc ''EC-101-102''))])]"

definition student_maria :: "(pystr \<times> json) list" where
  "student_maria =
     [(asc ''IdIntegracion'', JInt 988227),
      (asc ''Persona'',
         JDict [(asc ''Nombre'', JStr (asc ''Maria'')),
                (asc ''Apellido1'', JStr (asc '' Garcia'')),
                (asc ''Apellido2'', JStr (asc ''Ruiz '')),
                (asc ''Email'', JStr (asc ''maria.garcia@unir.test'')),
                (asc ''IdRefTerritorioDomicilio'', JStr (asc ''ES-MD-28001''))])]"

definition maria_persona :: "(pystr \<times> json) list" where
  "maria_persona =
     [(asc ''Nombre'', JStr (asc ''Maria'')),
      (asc ''Apellido1'', JStr (asc '' Garcia'')),
      (asc ''Apellido2'', JStr (asc ''Ruiz '')),
      (asc ''Email'', JStr (asc ''maria.garcia@unir.test'')),
      (asc ''IdRefTerritorioDomicilio'', JStr (asc ''ES-MD-28001''))]"

definition maria_normalized :: json where
  "maria_normalized =
     JDict [(asc ''IdAlumno'', JStr (asc ''988227'')),
            (asc ''Nombre'', JStr (asc ''Maria'')),
            (asc ''Apellidos'', JStr (asc ''Garcia Ruiz'')),
            (asc ''EmailPersonal'', JStr (asc ''maria.garcia@unir.test'')),
            (asc ''IdSeguridad'', JStr []),
            (asc ''Telefono'', JStr []),
            (asc ''IdPais'', JStr (asc ''ES''))]"




text \<open>
  Surroundings in which the data endpoint answers 200 with a given body, or 500.
\<close>

definition serving_env :: "json \<Rightarrow> environment" where
  "serving_env body =
     \<lparr>clock = (\<lambda>k. 1000 + real k), token_endpoint = (\<lambda>k. token_ok),
      data_endpoint = (\<lambda>k. Response \<lparr>status_code = 200, json_body = Some body\<rparr>)\<rparr>"

definition upstream_down_env :: environment where
  "upstream_down_env =
     \<lparr>clock = (\<lambda>k. 1000 + real k), token_endpoint = (\<lambda>k. token_ok),
      data_endpoint = (\<lambda>k. Response \<lparr>status_code = 500, json_body = None\<rparr>)\<rparr>"

section \<open>Properties\<close>

subsection \<open>Redaction of secrets\<close>

text \<open>
  C9, as amended. An absent or empty secret redacts to \<open>***\<close>; a secret of one to six
  code points redacts to \<open>***REDACTED***\<close>; a longer secret redacts to its first three code
  points followed by \<open>...***REDACTED***\<close>. The output for a long secret is a function of its
  first three code points alone: two long secrets that agree there redact alike.
\<close>

theorem redact_cases:
  "redact None = asc ''***''
   \<and> (s = [] \<longrightarrow> redact (Some s) = asc ''***'')
   \<and> (s \<noteq> [] \<and> length s \<le> 6 \<longrightarrow> redact (Some s) = asc ''***REDACTED***'')
   \<and> (6 < length s \<longrightarrow> redact (Some s) = take 3 s @ asc ''...***REDACTED***'')
   \<and> (6 < length s \<and> 6 < length t \<and> take 3 s = take 3 t
        \<longrightarrow> redact (Some s) = redact (Some t))"
  by auto

text \<open>The three cases at concrete secrets.\<close>

theorem redact_cases_witness:
  "redact (Some []) = asc ''***''
   \<and> redact (Some (asc ''abc'')) = asc ''***REDACTED***''
   \<and> redact (Some (asc ''s3cr3t-value'')) = asc ''s3c...***REDACTED***''
   \<and> redact (Some (asc ''s3cr3t-value'')) = redact (Some (asc ''s3c-another-one''))"
  using redact_cases [of "[]"] redact_cases [of "asc ''abc''"]
    redact_cases [of "asc ''s3cr3t-value''" "asc ''s3c-another-one''"]
  by (simp add: asc_def)

text \<open>
  C9 as stated fails: the empty string and \<open>abc\<close> both have at most six code points
  and do not redact to the same literal.
\<close>

theorem redact_short_counterexample:
  "length ([] :: pystr) \<le> 6 \<and> length (asc ''abc'') \<le> 6
   \<and> redact (Some []) \<noteq> redact (Some (asc ''abc''))"
  by (simp add: asc_def)

subsection \<open>Pagination of the mock upstream\<close>

lemma slice_bound_nonneg: "0 \<le> i \<Longrightarrow> slice_bound n i = min n (nat i)"
  by (simp add: slice_bound_def)

lemma py_slice_nonneg:
  assumes a: "0 \<le> a" and ab: "a \<le> b"
  shows "py_slice xs a b = take (nat (b - a)) (drop (nat a) xs)"
proof -
  have b: "0 \<le> b" using a ab by simp
  show ?thesis
  proof (cases "nat a \<le> length xs")
    case True
    then show ?thesis using a ab b
      by (auto simp: py_slice_def slice_bound_nonneg Let_def min_def nat_diff_distrib)
  next
    case False
    then show ?thesis using a ab b
      by (auto simp: py_slice_def slice_bound_nonneg Let_def min_def)
  qed
qed

text \<open>
  C10. \<open>_get_page_params\<close> returns for every payload: the page index is \<open>int\<close> of the
  value under \<open>PageIndex\<close> (else \<open>pageIndex\<close>, else 1), 1 when \<open>int\<close> raises, and at least
  1; the page size is \<open>int\<close> of the value under \<open>ItemsPerPage\<close> (else \<open>itemsPerPage\<close>,
  else 10), 10 when \<open>int\<close> raises or the value is below 1, and at most 500. \<open>_paginate\<close> is
  the slice from \<open>(index - 1) * size\<close> to \<open>index * size\<close>; with such parameters it is
  \<open>size\<close> items after the first \<open>(index - 1) * size\<close>, and it is empty, not an error, when
  the list is no longer than that.
\<close>

theorem page_params_clamped:
  "(let raw_index = dict_get_default payload (asc ''PageIndex'')
                      (dict_get_default payload (asc ''pageIndex'') (JInt 1));
        raw_items = dict_get_default payload (asc ''ItemsPerPage'')
                      (dict_get_default payload (asc ''itemsPerPage'') (JInt 10));
        idx = fst (get_page_params rt payload);
        ipp = snd (get_page_params rt payload)
    in idx = (case py_int rt raw_index of Inl x \<Rightarrow> 1 | Inr i \<Rightarrow> max 1 i)
       \<and> ipp = (case py_int rt raw_items of
                  Inl x \<Rightarrow> 10 | Inr i \<Rightarrow> if i < 1 then 10 else min 500 i)
       \<and> 1 \<le> idx \<and> 1 \<le> ipp \<and> ipp \<le> 500
       \<and> paginate items idx ipp = py_slice items ((idx - 1) * ipp) (idx * ipp)
       \<and> paginate items idx ipp = take (nat ipp) (drop (nat ((idx - 1) * ipp)) items)
       \<and> (int (length items) \<le> (idx - 1) * ipp \<longrightarrow> paginate items idx ipp = []))"
proof -
  define raw_index where "raw_index = dict_get_default payload (asc ''PageIndex'')
                      (dict_get_default payload (asc ''pageIndex'') (JInt 1))"
  define raw_items where "raw_items = dict_get_default payload (asc ''ItemsPerPage'')
                      (dict_get_default payload (asc ''itemsPerPage'') (JInt 10))"
  define idx where "idx = fst (get_page_params rt payload)"
  define ipp where "ipp = snd (get_page_params rt payload)"
  have i1: "idx = (case py_int rt raw_index of Inl x \<Rightarrow> 1 | Inr i \<Rightarrow> max 1 i)"
    unfolding idx_def raw_index_def get_page_params_def
    by (simp add: Let_def split: sum.splits)
  have i2: "ipp = (case py_int rt raw_items of
                     Inl x \<Rightarrow> 10 | Inr i \<Rightarrow> if i < 1 then 10 else min 500 i)"
    unfolding ipp_def raw_items_def get_page_params_def
    by (simp add: Let_def split: sum.splits)
  have r1: "1 \<le> idx" using i1 by (simp split: sum.splits)
  have r2: "1 \<le> ipp \<and> ipp \<le> 500" using i2 by (simp split: sum.splits if_splits)
  have st: "0 \<le> (idx - 1) * ipp" using r1 r2 by simp
  have p1: "paginate items idx ipp = py_slice items ((idx - 1) * ipp) (idx * ipp)"
    by (simp add: paginate_def Let_def algebra_simps)
  have p2: "paginate items idx ipp = take (nat ipp) (drop (nat ((idx - 1) * ipp)) items)"
    using py_slice_nonneg [of "(idx - 1) * ipp" "(idx - 1) * ipp + ipp" items] st r2
    by (simp add: paginate_def Let_def)
  have p3: "int (length items) \<le> (idx - 1) * ipp \<longrightarrow> paginate items idx ipp = []"
    using p2 st by auto
  show ?thesis
    using i1 i2 r1 r2 p1 p2 p3
    unfolding Let_def raw_index_def raw_items_def idx_def ipp_def by blast
qed

text \<open>
  A page index that is not a number and a page size of 0 give page 1 of size 10; page 7
  of size 1000 is clamped to size 500 and lies past the end of a three-item list.
\<close>

theorem page_params_clamped_witness:
  "get_page_params example_rt
     [(asc ''PageIndex'', JStr (asc ''abc'')), (asc ''ItemsPerPage'', JInt 0)] = (1, 10)
   \<and> get_page_params example_rt
       [(asc ''pageIndex'', JInt 7), (asc ''itemsPerPage'', JInt 1000)] = (7, 500)
   \<and> int (length [JInt 1, JInt 2, JInt 3]) \<le> (7 - 1) * 500
   \<and> paginate [JInt 1, JInt 2, JInt 3] 7 500 = []"
  using page_params_clamped
    [of "[(asc ''pageIndex'', JInt 7), (asc ''itemsPerPage'', JInt 1000)]" example_rt
        "[JInt 1, JInt 2, JInt 3]"]
  by (simp add: get_page_params_def dict_get_default_def asc_def py_int_str_def int_strip_def is_int_space_def py_strip_def
      is_space_def digit_val_def Let_def paginate_def py_slice_def slice_bound_def)

subsection \<open>The token cache\<close>

lemma get_token_valid:
  assumes "access_token w = Some tok" and "clock e (ticks w) < token_expiry_epoch w"
  shows "get_token rt e cfg w = (Inr tok, w\<lparr>ticks := Suc (ticks w)\<rparr>)"
  using assms by (simp add: get_token_def token_is_valid_def)

lemma callers_valid:
  "access_token w = Some tok \<Longrightarrow> \<forall>k<n. clock e (ticks w + k) < token_expiry_epoch w \<Longrightarrow>
   callers rt e cfg n w = (replicate n (Inr tok), w\<lparr>ticks := ticks w + n\<rparr>)"
proof (induction n arbitrary: w)
  case 0
  then show ?case by simp
next
  case (Suc n)
  have v: "clock e (ticks w) < token_expiry_epoch w" using Suc.prems(2) by force
  have g: "get_token rt e cfg w = (Inr tok, w\<lparr>ticks := Suc (ticks w)\<rparr>)"
    using get_token_valid [OF Suc.prems(1) v] .
  have "\<forall>k<n. clock e (ticks (w\<lparr>ticks := Suc (ticks w)\<rparr>) + k) < token_expiry_epoch (w\<lparr>ticks := Suc (ticks w)\<rparr>)"
  proof (intro allI impI)
    fix k assume "k < n"
    then have "Suc k < Suc n" by simp
    then have "clock e (ticks w + Suc k) < token_expiry_epoch w" using Suc.prems(2) by blast
    then show "clock e (ticks (w\<lparr>ticks := Suc (ticks w)\<rparr>) + k) < token_expiry_epoch (w\<lparr>ticks := Suc (ticks w)\<rparr>)"
      by simp
  qed
  then have "callers rt e cfg n (w\<lparr>ticks := Suc (ticks w)\<rparr>) =
     (replicate n (Inr tok), (w\<lparr>ticks := Suc (ticks w)\<rparr>)\<lparr>ticks := ticks (w\<lparr>ticks := Suc (ticks w)\<rparr>) + n\<rparr>)"
    using Suc.IH [of "w\<lparr>ticks := Suc (ticks w)\<rparr>"] Suc.prems(1) by simp
  then show ?case using g by simp
qed


text \<open>
  C2. While the cache holds a token and the clock reads a time strictly before the
  expiry, \<open>get_token\<close> returns the cached token, issues no POST and leaves the cached
  token and the expiry as they are. Any number of callers in a row, each reading a time
  before the expiry, all receive that same token, and no POST is issued.
\<close>

theorem get_token_fast_path:
  assumes "access_token w = Some tok"
  shows "(clock e (ticks w) < token_expiry_epoch w \<longrightarrow>
            fst (get_token rt e cfg w) = Inr tok
            \<and> sent (snd (get_token rt e cfg w)) = sent w
            \<and> access_token (snd (get_token rt e cfg w)) = Some tok
            \<and> token_expiry_epoch (snd (get_token rt e cfg w)) = token_expiry_epoch w)
       \<and> ((\<forall>k<n. clock e (ticks w + k) < token_expiry_epoch w) \<longrightarrow>
            fst (callers rt e cfg n w) = replicate n (Inr tok)
            \<and> sent (snd (callers rt e cfg n w)) = sent w
            \<and> access_token (snd (callers rt e cfg n w)) = Some tok
            \<and> token_expiry_epoch (snd (callers rt e cfg n w)) = token_expiry_epoch w)"
  using assms get_token_valid [of w tok e rt cfg] callers_valid [of w tok n e rt cfg]
  by auto

text \<open>Three callers of a cache that is valid until 5000, at times 1000, 1001 and 1002.\<close>

theorem get_token_fast_path_witness:
  "access_token warm_world = Some (JStr (asc ''tok-0''))
   \<and> clock issuing_env (ticks warm_world) < token_expiry_epoch warm_world
   \<and> clock issuing_env (ticks warm_world + 1) < token_expiry_epoch warm_world
   \<and> clock issuing_env (ticks warm_world + 2) < token_expiry_epoch warm_world
   \<and> fst (callers example_rt issuing_env example_cfg 3 warm_world)
       = [Inr (JStr (asc ''tok-0'')), Inr (JStr (asc ''tok-0'')), Inr (JStr (asc ''tok-0''))]
   \<and> sent (snd (callers example_rt issuing_env example_cfg 3 warm_world)) = []"
proof -
  have a: "access_token warm_world = Some (JStr (asc ''tok-0''))" by (simp add: warm_world_def)
  have b: "\<forall>k<3. clock issuing_env (ticks warm_world + k) < token_expiry_epoch warm_world"
    by (simp add: warm_world_def issuing_env_def)
  show ?thesis
    using a b get_token_fast_path [OF a, where e = issuing_env and n = 3 and rt = example_rt
        and cfg = example_cfg]
    by (simp add: warm_world_def issuing_env_def numeral_3_eq_3)
qed

subsection \<open>The token fetch\<close>

lemma fetch_token_sent:
  "sent (snd (fetch_token rt e cfg w)) = sent w @ [TokenCall (token_request cfg)]"
  by (simp add: fetch_token_def Let_def
      split: net_result.splits option.splits json.splits sum.splits)

lemma fetch_token_failure_keeps_cache:
  "fetch_token rt e cfg w = (Inl f, w') \<Longrightarrow>
   access_token w' = access_token w \<and> token_expiry_epoch w' = token_expiry_epoch w"
  by (auto simp: fetch_token_def Let_def
      split: net_result.splits option.splits json.splits sum.splits if_splits)

lemma fetch_token_success:
  "fetch_token rt e cfg w = (Inr tok, w') \<Longrightarrow>
   \<exists>r j expires_in.
     token_endpoint e (n_token_calls w) = Response r
     \<and> 200 \<le> status_code r \<and> status_code r < 300
     \<and> json_body r = Some (JDict j)
     \<and> tok = dict_get j (asc ''access_token'') \<and> truthy tok
     \<and> py_int rt (dict_get_default j (asc ''expires_in'') (JInt 0)) = Inr expires_in
     \<and> 0 < expires_in
     \<and> max 0 (expires_in - TOKEN_SAFETY_SECONDS cfg) < float_max_int
     \<and> w' = w\<lparr>sent := sent w @ [TokenCall (token_request cfg)],
              access_token := Some tok,
              token_expiry_epoch :=
                clock e (ticks w) + of_int (max 0 (expires_in - TOKEN_SAFETY_SECONDS cfg)),
              ticks := ticks w + 2\<rparr>"
  by (auto simp: fetch_token_def Let_def
      split: net_result.splits option.splits json.splits sum.splits if_splits)

lemma fetch_token_non_2xx:
  "token_endpoint e (n_token_calls w) = Response r \<Longrightarrow>
   status_code r < 200 \<or> 300 \<le> status_code r \<Longrightarrow>
   fst (fetch_token rt e cfg w) =
     Inl (HTTPException 502 (asc ''Token request failed ('' @ str_of_int (status_code r) @ asc '')''))"
  by (auto simp: fetch_token_def Let_def)

lemma fetch_token_invalid:
  "token_endpoint e (n_token_calls w) = Response r \<Longrightarrow>
   200 \<le> status_code r \<Longrightarrow> status_code r < 300 \<Longrightarrow>
   json_body r = Some (JDict j) \<Longrightarrow>
   py_int rt (dict_get_default j (asc ''expires_in'') (JInt 0)) = Inr n \<Longrightarrow>
   \<not> truthy (dict_get j (asc ''access_token'')) \<or> n \<le> 0 \<Longrightarrow>
   fst (fetch_token rt e cfg w) = Inl (HTTPException 502 (asc ''Token response invalid''))"
  by (auto simp: fetch_token_def Let_def)


lemma fetch_token_http_exception:
  "fst (fetch_token rt e cfg w) = Inl (HTTPException s d) \<Longrightarrow>
   s = 502 \<and>
   (\<exists>r. token_endpoint e (n_token_calls w) = Response r \<and>
      ((status_code r < 200 \<or> 300 \<le> status_code r)
         \<and> d = asc ''Token request failed ('' @ str_of_int (status_code r) @ asc '')''
       \<or> (200 \<le> status_code r \<and> status_code r < 300
          \<and> (\<exists>j n. json_body r = Some (JDict j)
                \<and> py_int rt (dict_get_default j (asc ''expires_in'') (JInt 0)) = Inr n
                \<and> (\<not> truthy (dict_get j (asc ''access_token'')) \<or> n \<le> 0))
          \<and> d = asc ''Token response invalid'')))"
  by (auto simp: fetch_token_def Let_def
      split: net_result.splits option.splits json.splits sum.splits if_splits)

text \<open>
  C3 at two responses the claim covers and the code mishandles. The token endpoint
  answers 200 with the body \<open>{"token_type": "bearer", "expires_in": null}\<close>, which has no
  access token: \<open>int(None)\<close> raises before the validity test is reached, and the fetch ends
  in an unhandled \<open>TypeError\<close>. The token endpoint answers 200 with a body that is not
  JSON: \<open>r.json()\<close> raises, and the fetch ends in an unhandled decoding error. Neither is
  the \<open>HTTPException\<close> with status 502 that the other invalid responses get.
\<close>

theorem fetch_token_malformed_2xx:
  "fst (fetch_token rt (e\<lparr>token_endpoint := (\<lambda>k. token_null_expiry)\<rparr>) cfg w)
     = Inl (Unhandled TypeError)
   \<and> fst (fetch_token rt (e\<lparr>token_endpoint := (\<lambda>k. token_not_json)\<rparr>) cfg w)
     = Inl (Unhandled JSONDecodeError)"
  by (simp add: fetch_token_def token_null_expiry_def token_not_json_def Let_def
      dict_get_default_def dict_get_def asc_def)

text \<open>The same responses at the first fetch of a fresh process; the cache stays empty.\<close>

theorem fetch_token_malformed_2xx_witness:
  "fst (fetch_token example_rt (issuing_env\<lparr>token_endpoint := (\<lambda>k. token_null_expiry)\<rparr>)
          example_cfg cold_world) = Inl (Unhandled TypeError)
   \<and> fst (fetch_token example_rt (issuing_env\<lparr>token_endpoint := (\<lambda>k. token_not_json)\<rparr>)
          example_cfg cold_world) = Inl (Unhandled JSONDecodeError)
   \<and> access_token (snd (fetch_token example_rt
          (issuing_env\<lparr>token_endpoint := (\<lambda>k. token_null_expiry)\<rparr>) example_cfg cold_world))
       = None"
  using fetch_token_malformed_2xx [of example_rt issuing_env example_cfg cold_world]
  by (simp add: fetch_token_def token_null_expiry_def Let_def dict_get_default_def dict_get_def
      asc_def cold_world_def)

text \<open>
  C4. After a successful fetch the stored expiry is the time read at the fetch plus
  \<open>max(0, expires_in - TOKEN_SAFETY_SECONDS)\<close>, where \<open>expires_in\<close> is \<open>int\<close> of the
  response's field, so it is never earlier than that time. The margin is the environment
  variable \<open>ERP_TOKEN_SAFETY_SECONDS\<close> when it is an integer, and 60 when it is not set.
\<close>

theorem fetch_token_expiry:
  "(fetch_token rt e cfg w = (Inr tok, w') \<longrightarrow>
      (\<exists>r j expires_in.
         token_endpoint e (n_token_calls w) = Response r
         \<and> json_body r = Some (JDict j)
         \<and> py_int rt (dict_get_default j (asc ''expires_in'') (JInt 0)) = Inr expires_in
         \<and> token_expiry_epoch w' =
             clock e (ticks w) + of_int (max 0 (expires_in - TOKEN_SAFETY_SECONDS cfg))
         \<and> clock e (ticks w) \<le> token_expiry_epoch w'))
   \<and> (load_config rt env = Some cfg \<longrightarrow>
        (env (asc ''ERP_TOKEN_SAFETY_SECONDS'') = None \<longrightarrow> TOKEN_SAFETY_SECONDS cfg = 60)
        \<and> (\<forall>v i. env (asc ''ERP_TOKEN_SAFETY_SECONDS'') = Some v \<and> py_int_str rt v = Inr i
              \<longrightarrow> TOKEN_SAFETY_SECONDS cfg = i))"
proof -
  have a: "fetch_token rt e cfg w = (Inr tok, w') \<longrightarrow>
      (\<exists>r j expires_in.
         token_endpoint e (n_token_calls w) = Response r
         \<and> json_body r = Some (JDict j)
         \<and> py_int rt (dict_get_default j (asc ''expires_in'') (JInt 0)) = Inr expires_in
         \<and> token_expiry_epoch w' =
             clock e (ticks w) + of_int (max 0 (expires_in - TOKEN_SAFETY_SECONDS cfg))
         \<and> clock e (ticks w) \<le> token_expiry_epoch w')"
  proof
    assume h: "fetch_token rt e cfg w = (Inr tok, w')"
    from fetch_token_success [OF h] obtain r j expires_in where
      f: "token_endpoint e (n_token_calls w) = Response r" "json_body r = Some (JDict j)"
         "py_int rt (dict_get_default j (asc ''expires_in'') (JInt 0)) = Inr expires_in"
         "w' = w\<lparr>sent := sent w @ [TokenCall (token_request cfg)],
              access_token := Some tok,
              token_expiry_epoch :=
                clock e (ticks w) + of_int (max 0 (expires_in - TOKEN_SAFETY_SECONDS cfg)),
              ticks := ticks w + 2\<rparr>"
      by blast
    have e1: "token_expiry_epoch w' =
             clock e (ticks w) + of_int (max 0 (expires_in - TOKEN_SAFETY_SECONDS cfg))"
      using f(4) by simp
    have "(0::real) \<le> of_int (max 0 (expires_in - TOKEN_SAFETY_SECONDS cfg))" by simp
    then have e2: "clock e (ticks w) \<le> token_expiry_epoch w'" using e1 by linarith
    show "\<exists>r j expires_in.
         token_endpoint e (n_token_calls w) = Response r
         \<and> json_body r = Some (JDict j)
         \<and> py_int rt (dict_get_default j (asc ''expires_in'') (JInt 0)) = Inr expires_in
         \<and> token_expiry_epoch w' =
             clock e (ticks w) + of_int (max 0 (expires_in - TOKEN_SAFETY_SECONDS cfg))
         \<and> clock e (ticks w) \<le> token_expiry_epoch w'"
      using f(1,2,3) e1 e2 by blast
  qed
  have s60: "py_int_str rt (str_of_int 60) = Inr 60"
    by (simp add: str_of_int_def digits_of_nat.simps py_int_str_def int_strip_def is_int_space_def py_strip_def is_space_def
        digit_val_def Let_def)
  have b: "load_config rt env = Some cfg \<longrightarrow>
        (env (asc ''ERP_TOKEN_SAFETY_SECONDS'') = None \<longrightarrow> TOKEN_SAFETY_SECONDS cfg = 60)
        \<and> (\<forall>v i. env (asc ''ERP_TOKEN_SAFETY_SECONDS'') = Some v \<and> py_int_str rt v = Inr i
              \<longrightarrow> TOKEN_SAFETY_SECONDS cfg = i)"
    using s60
    by (auto simp: load_config_def getenv_int_def Option.bind_eq_Some_conv)
  show ?thesis using a b by blast
qed


lemma fetch_issuing_cold:
  "fetch_token example_rt issuing_env example_cfg cold_world =
   (Inr (JStr (asc ''tok-1'')),
    \<lparr>access_token = Some (JStr (asc ''tok-1'')), token_expiry_epoch = 2139, ticks = 2,
     sent = [TokenCall (token_request example_cfg)]\<rparr>)"
  by (simp add: fetch_token_def issuing_env_def token_ok_def cold_world_def example_cfg_def
      n_token_calls_def dict_get_def dict_get_default_def asc_def Let_def float_max_int_def)

lemma load_example_environ: "load_config example_rt example_environ = Some example_cfg"
  by (simp add: load_config_def require_env_def example_environ_def example_cfg_def
      getenv_int_def asc_def str_of_int_def digits_of_nat.simps py_int_str_def int_strip_def is_int_space_def py_strip_def
      is_space_def digit_val_def Let_def)

text \<open>
  A token of 1199 seconds fetched at time 1000 with the default margin is stored with
  expiry 1000 + 1139.
\<close>

theorem fetch_token_expiry_witness:
  "fst (fetch_token example_rt issuing_env example_cfg cold_world) = Inr (JStr (asc ''tok-1''))
   \<and> clock issuing_env (ticks cold_world) = 1000
   \<and> token_expiry_epoch (snd (fetch_token example_rt issuing_env example_cfg cold_world))
       = 1000 + of_int (max 0 (1199 - 60))
   \<and> load_config example_rt example_environ = Some example_cfg
   \<and> example_environ (asc ''ERP_TOKEN_SAFETY_SECONDS'') = None
   \<and> TOKEN_SAFETY_SECONDS example_cfg = 60"
  using fetch_token_expiry [where rt = example_rt and e = issuing_env and cfg = example_cfg
      and w = cold_world and tok = "JStr (asc ''tok-1'')" and env = example_environ
      and w' = "snd (fetch_token example_rt issuing_env example_cfg cold_world)"]
    fetch_issuing_cold load_example_environ
  by (simp add: issuing_env_def cold_world_def example_environ_def asc_def)

subsection \<open>The authenticated call\<close>

lemma get_token_data_calls:
  "n_data_calls (snd (get_token rt e cfg w)) = n_data_calls w"
  by (simp add: get_token_def token_is_valid_def n_data_calls_def fetch_token_sent
      split: option.splits bool.splits prod.splits)

lemma get_token_data_calls':
  "get_token rt e cfg w = (r, w1) \<Longrightarrow> n_data_calls w1 = n_data_calls w"
  using get_token_data_calls [of rt e cfg w] by simp

lemma headers_retry:
  "dict_set (call_headers rt token accept_json) (asc ''Authorization'') (bearer rt tok2)
     = call_headers rt tok2 accept_json"
  by (simp add: call_headers_def asc_def)

lemma finish_call_401:
  "status_code r = 401 \<Longrightarrow>
   finish_call r = Inl (HTTPException 502 (asc ''ERP call failed (401)''))"
  by (simp add: finish_call_def str_of_int_def digits_of_nat.simps asc_def)

lemma finish_call_2xx:
  "200 \<le> status_code r \<Longrightarrow> status_code r < 300 \<Longrightarrow> json_body r = Some j \<Longrightarrow>
   finish_call r = Inr j"
  by (simp add: finish_call_def)


text \<open>
  C1, as amended. Let the first POST of a call with \<open>retry_on_401\<close> set be answered with
  401. Then the token fetch is called once, whatever the cache holds. If it fails, the call
  fails with the fetch's error and the POST is not repeated. If it succeeds, the POST is
  repeated once with the fetched token in its \<open>Authorization\<close> header, which makes two
  data-endpoint calls with one token call between them and no call after; the second
  response decides the outcome: a 401 fails with \<open>ERP call failed (401)\<close>, and a 2xx whose
  body is JSON returns that body.
\<close>

theorem erp_post_json_retry_once:
  assumes g: "get_token rt e cfg w = (Inr token, w1)"
    and d1: "data_endpoint e (n_data_calls w) = Response r1"
    and s1: "status_code r1 = 401"
  shows
    "(let q1 = \<lparr>req_url = data_url cfg path, req_body = payload,
                 req_headers = call_headers rt token accept_json\<rparr>;
          w2 = w1\<lparr>sent := sent w1 @ [DataCall q1]\<rparr>
      in (\<forall>f w3. fetch_token rt e cfg w2 = (Inl f, w3) \<longrightarrow>
            erp_post_json rt e cfg path payload accept_json True w = (Inl f, w3)
            \<and> sent w3 = sent w1 @ [DataCall q1, TokenCall (token_request cfg)])
       \<and> (\<forall>tok2 w3. fetch_token rt e cfg w2 = (Inr tok2, w3) \<longrightarrow>
            (let q2 = \<lparr>req_url = data_url cfg path, req_body = payload,
                        req_headers = call_headers rt tok2 accept_json\<rparr>;
                 w4 = w3\<lparr>sent := sent w1 @
                          [DataCall q1, TokenCall (token_request cfg), DataCall q2]\<rparr>
             in n_data_calls w4 = n_data_calls w + 2
                \<and> n_token_calls w4 = n_token_calls w1 + 1
                \<and> (case data_endpoint e (n_data_calls w + 1) of
                      NetError \<Rightarrow>
                        erp_post_json rt e cfg path payload accept_json True w
                          = (Inl (Unhandled TransportError), w4)
                    | Response r2 \<Rightarrow>
                        erp_post_json rt e cfg path payload accept_json True w
                          = (finish_call r2, w4)
                        \<and> (status_code r2 = 401 \<longrightarrow>
                             finish_call r2
                               = Inl (HTTPException 502 (asc ''ERP call failed (401)'')))
                        \<and> (\<forall>j. 200 \<le> status_code r2 \<and> status_code r2 < 300
                                \<and> json_body r2 = Some j \<longrightarrow> finish_call r2 = Inr j)))))"
proof -
  define q1 where "q1 = \<lparr>req_url = data_url cfg path, req_body = payload,
                 req_headers = call_headers rt token accept_json\<rparr>"
  define w2 where "w2 = w1\<lparr>sent := sent w1 @ [DataCall q1]\<rparr>"
  have nd1: "n_data_calls w1 = n_data_calls w" using get_token_data_calls' [OF g] .
  have d1': "data_endpoint e (n_data_calls w1) = Response r1" using d1 nd1 by simp
  have fail: "\<forall>f w3. fetch_token rt e cfg w2 = (Inl f, w3) \<longrightarrow>
            erp_post_json rt e cfg path payload accept_json True w = (Inl f, w3)
            \<and> sent w3 = sent w1 @ [DataCall q1, TokenCall (token_request cfg)]"
  proof (intro allI impI)
    fix f w3 assume h: "fetch_token rt e cfg w2 = (Inl f, w3)"
    have a: "erp_post_json rt e cfg path payload accept_json True w = (Inl f, w3)"
      using g d1' s1 h by (simp add: erp_post_json_def Let_def q1_def w2_def)
    have b: "sent w3 = sent w1 @ [DataCall q1, TokenCall (token_request cfg)]"
      using fetch_token_sent [of rt e cfg w2] h by (simp add: w2_def)
    show "erp_post_json rt e cfg path payload accept_json True w = (Inl f, w3)
            \<and> sent w3 = sent w1 @ [DataCall q1, TokenCall (token_request cfg)]"
      using a b by simp
  qed
  have ok: "\<forall>tok2 w3. fetch_token rt e cfg w2 = (Inr tok2, w3) \<longrightarrow>
            (let q2 = \<lparr>req_url = data_url cfg path, req_body = payload,
                        req_headers = call_headers rt tok2 accept_json\<rparr>;
                 w4 = w3\<lparr>sent := sent w1 @
                          [DataCall q1, TokenCall (token_request cfg), DataCall q2]\<rparr>
             in n_data_calls w4 = n_data_calls w + 2
                \<and> n_token_calls w4 = n_token_calls w1 + 1
                \<and> (case data_endpoint e (n_data_calls w + 1) of
                      NetError \<Rightarrow>
                        erp_post_json rt e cfg path payload accept_json True w
                          = (Inl (Unhandled TransportError), w4)
                    | Response r2 \<Rightarrow>
                        erp_post_json rt e cfg path payload accept_json True w
                          = (finish_call r2, w4)
                        \<and> (status_code r2 = 401 \<longrightarrow>
                             finish_call r2
                               = Inl (HTTPException 502 (asc ''ERP call failed (401)'')))
                        \<and> (\<forall>j. 200 \<le> status_code r2 \<and> status_code r2 < 300
                                \<and> json_body r2 = Some j \<longrightarrow> finish_call r2 = Inr j)))"
  proof (intro allI impI)
    fix tok2 w3 assume h: "fetch_token rt e cfg w2 = (Inr tok2, w3)"
    define q2 where "q2 = \<lparr>req_url = data_url cfg path, req_body = payload,
                        req_headers = call_headers rt tok2 accept_json\<rparr>"
    define w4 where "w4 = w3\<lparr>sent := sent w1 @
                          [DataCall q1, TokenCall (token_request cfg), DataCall q2]\<rparr>"
    have s3: "sent w3 = sent w1 @ [DataCall q1, TokenCall (token_request cfg)]"
      using fetch_token_sent [of rt e cfg w2] h by (simp add: w2_def)
    have t3: "access_token w3 = Some tok2"
      using fetch_token_success [OF h] by auto
    have n3: "n_data_calls w3 = n_data_calls w + 1"
      using s3 nd1 by (simp add: n_data_calls_def)
    have n4: "n_data_calls w4 = n_data_calls w + 2"
      using nd1 by (simp add: w4_def n_data_calls_def)
    have m4: "n_token_calls w4 = n_token_calls w1 + 1"
      by (simp add: w4_def n_token_calls_def)
    have w4': "w3\<lparr>sent := sent w3 @ [DataCall q2]\<rparr> = w4"
      using s3 by (simp add: w4_def)
    have run: "erp_post_json rt e cfg path payload accept_json True w =
       (case data_endpoint e (n_data_calls w + 1) of
          NetError \<Rightarrow> (Inl (Unhandled TransportError), w4)
        | Response r2 \<Rightarrow> (finish_call r2, w4))"
      using g d1' s1 h t3 n3 w4'
      by (simp add: erp_post_json_def Let_def q1_def [symmetric] w2_def [symmetric]
          headers_retry q2_def [symmetric] split: net_result.splits)
    have "n_data_calls w4 = n_data_calls w + 2
                \<and> n_token_calls w4 = n_token_calls w1 + 1
                \<and> (case data_endpoint e (n_data_calls w + 1) of
                      NetError \<Rightarrow>
                        erp_post_json rt e cfg path payload accept_json True w
                          = (Inl (Unhandled TransportError), w4)
                    | Response r2 \<Rightarrow>
                        erp_post_json rt e cfg path payload accept_json True w
                          = (finish_call r2, w4)
                        \<and> (status_code r2 = 401 \<longrightarrow>
                             finish_call r2
                               = Inl (HTTPException 502 (asc ''ERP call failed (401)'')))
                        \<and> (\<forall>j. 200 \<le> status_code r2 \<and> status_code r2 < 300
                                \<and> json_body r2 = Some j \<longrightarrow> finish_call r2 = Inr j))"
      using n4 m4 run finish_call_401 finish_call_2xx
      by (auto split: net_result.splits)
    then show "(let q2 = \<lparr>req_url = data_url cfg path, req_body = payload,
                        req_headers = call_headers rt tok2 accept_json\<rparr>;
                 w4 = w3\<lparr>sent := sent w1 @
                          [DataCall q1, TokenCall (token_request cfg), DataCall q2]\<rparr>
             in n_data_calls w4 = n_data_calls w + 2
                \<and> n_token_calls w4 = n_token_calls w1 + 1
                \<and> (case data_endpoint e (n_data_calls w + 1) of
                      NetError \<Rightarrow>
                        erp_post_json rt e cfg path payload accept_json True w
                          = (Inl (Unhandled TransportError), w4)
                    | Response r2 \<Rightarrow>
                        erp_post_json rt e cfg path payload accept_json True w
                          = (finish_call r2, w4)
                        \<and> (status_code r2 = 401 \<longrightarrow>
                             finish_call r2
                               = Inl (HTTPException 502 (asc ''ERP call failed (401)'')))
                        \<and> (\<forall>j. 200 \<le> status_code r2 \<and> status_code r2 < 300
                                \<and> json_body r2 = Some j \<longrightarrow> finish_call r2 = Inr j)))"
      unfolding Let_def q2_def w4_def by simp
  qed
  show ?thesis unfolding Let_def using fail ok
    unfolding q1_def w2_def Let_def by simp
qed



lemmas run_defs = erp_post_json_def get_token_def token_is_valid_def fetch_token_def
  finish_call_def n_data_calls_def n_token_calls_def Let_def dict_get_def dict_get_default_def
  warm_world_def cold_world_def example_cfg_def token_ok_def token_down_def unauthorized_def
  empty_page_def str_of_int_def digits_of_nat.simps call_headers_def float_max_int_def

lemma run_refetch_fails:
  "erp_post_json example_rt refetch_fails_env example_cfg (asc ''/alumnos/search-list'')
     (alumnos_payload 988224 10) True True warm_world
   = (Inl (HTTPException 502 (asc ''Token request failed (500)'')),
      warm_world\<lparr>ticks := 1,
        sent := [DataCall \<lparr>req_url = data_url example_cfg (asc ''/alumnos/search-list''),
                           req_body = alumnos_payload 988224 10,
                           req_headers = call_headers example_rt (JStr (asc ''tok-0'')) True\<rparr>,
                 TokenCall (token_request example_cfg)]\<rparr>)"
  by (simp add: run_defs refetch_fails_env_def asc_def)

lemma run_no_retry:
  "erp_post_json example_rt retry_ok_env example_cfg (asc ''/alumnos/search-list'')
     (alumnos_payload 988224 10) True False warm_world
   = (Inl (HTTPException 502 (asc ''ERP call failed (401)'')),
      warm_world\<lparr>ticks := 1,
        sent := [DataCall \<lparr>req_url = data_url example_cfg (asc ''/alumnos/search-list''),
                           req_body = alumnos_payload 988224 10,
                           req_headers = call_headers example_rt (JStr (asc ''tok-0'')) True\<rparr>]\<rparr>)"
  by (simp add: run_defs retry_ok_env_def asc_def)

lemma run_retry_ok:
  "erp_post_json example_rt retry_ok_env example_cfg (asc ''/alumnos/search-list'')
     (alumnos_payload 988224 10) True True warm_world
   = (Inr (JList []),
      \<lparr>access_token = Some (JStr (asc ''tok-1'')), token_expiry_epoch = 2140, ticks = 3,
        sent = [DataCall \<lparr>req_url = data_url example_cfg (asc ''/alumnos/search-list''),
                           req_body = alumnos_payload 988224 10,
                           req_headers = call_headers example_rt (JStr (asc ''tok-0'')) True\<rparr>,
                 TokenCall (token_request example_cfg),
                 DataCall \<lparr>req_url = data_url example_cfg (asc ''/alumnos/search-list''),
                           req_body = alumnos_payload 988224 10,
                           req_headers = call_headers example_rt (JStr (asc ''tok-1'')) True\<rparr>]\<rparr>)"
  by (simp add: run_defs retry_ok_env_def asc_def)

lemma run_retry_401:
  "erp_post_json example_rt retry_401_env example_cfg (asc ''/alumnos/search-list'')
     (alumnos_payload 988224 10) True True warm_world
   = (Inl (HTTPException 502 (asc ''ERP call failed (401)'')),
      \<lparr>access_token = Some (JStr (asc ''tok-1'')), token_expiry_epoch = 2140, ticks = 3,
        sent = [DataCall \<lparr>req_url = data_url example_cfg (asc ''/alumnos/search-list''),
                           req_body = alumnos_payload 988224 10,
                           req_headers = call_headers example_rt (JStr (asc ''tok-0'')) True\<rparr>,
                 TokenCall (token_request example_cfg),
                 DataCall \<lparr>req_url = data_url example_cfg (asc ''/alumnos/search-list''),
                           req_body = alumnos_payload 988224 10,
                           req_headers = call_headers example_rt (JStr (asc ''tok-1'')) True\<rparr>]\<rparr>)"
  by (simp add: run_defs retry_401_env_def asc_def)

text \<open>
  A cached token that the upstream rejects: 401, refetch of \<open>tok-1\<close>, then an empty page
  (returned after two data calls) or a second 401 (failure after two data calls).
\<close>

theorem erp_post_json_retry_once_witness:
  "get_token example_rt retry_ok_env example_cfg warm_world
     = (Inr (JStr (asc ''tok-0'')), warm_world\<lparr>ticks := 1\<rparr>)
   \<and> data_endpoint retry_ok_env (n_data_calls warm_world) = unauthorized
   \<and> fst (erp_post_json example_rt retry_ok_env example_cfg (asc ''/alumnos/search-list'')
            (alumnos_payload 988224 10) True True warm_world) = Inr (JList [])
   \<and> n_data_calls (snd (erp_post_json example_rt retry_ok_env example_cfg
        (asc ''/alumnos/search-list'') (alumnos_payload 988224 10) True True warm_world)) = 2
   \<and> n_token_calls (snd (erp_post_json example_rt retry_ok_env example_cfg
        (asc ''/alumnos/search-list'') (alumnos_payload 988224 10) True True warm_world)) = 1
   \<and> fst (erp_post_json example_rt retry_401_env example_cfg (asc ''/alumnos/search-list'')
            (alumnos_payload 988224 10) True True warm_world)
       = Inl (HTTPException 502 (asc ''ERP call failed (401)''))
   \<and> n_data_calls (snd (erp_post_json example_rt retry_401_env example_cfg
        (asc ''/alumnos/search-list'') (alumnos_payload 988224 10) True True warm_world)) = 2"
proof -
  have g: "get_token example_rt retry_ok_env example_cfg warm_world
     = (Inr (JStr (asc ''tok-0'')), warm_world\<lparr>ticks := 1\<rparr>)"
    by (simp add: get_token_def token_is_valid_def warm_world_def retry_ok_env_def)
  have d: "data_endpoint retry_ok_env (n_data_calls warm_world)
     = Response \<lparr>status_code = 401,
         json_body = Some (JDict [(asc ''detail'', JStr (asc ''Token expired''))])\<rparr>"
    by (simp add: retry_ok_env_def n_data_calls_def warm_world_def unauthorized_def)
  have s: "status_code \<lparr>status_code = 401,
         json_body = Some (JDict [(asc ''detail'', JStr (asc ''Token expired''))])\<rparr> = 401"
    by simp
  note t = erp_post_json_retry_once [OF g d s, where path = "asc ''/alumnos/search-list''"
      and payload = "alumnos_payload 988224 10" and accept_json = True]
  show ?thesis
    using t g d run_retry_ok run_retry_401
    by (simp add: n_data_calls_def n_token_calls_def unauthorized_def)
qed

text \<open>
  C1 as stated fails. With a valid cached token, a first POST answered 401 and a token
  endpoint answering 500, the call fails after one data call: the POST is not repeated.
  With \<open>retry_on_401\<close> unset, a first 401 leads to no token call and no second POST.
\<close>

theorem erp_post_json_retry_counterexample:
  "data_endpoint refetch_fails_env 0 = unauthorized
   \<and> fst (erp_post_json example_rt refetch_fails_env example_cfg (asc ''/alumnos/search-list'')
            (alumnos_payload 988224 10) True True warm_world)
       = Inl (HTTPException 502 (asc ''Token request failed (500)''))
   \<and> n_data_calls (snd (erp_post_json example_rt refetch_fails_env example_cfg
        (asc ''/alumnos/search-list'') (alumnos_payload 988224 10) True True warm_world)) = 1
   \<and> data_endpoint retry_ok_env 0 = unauthorized
   \<and> fst (erp_post_json example_rt retry_ok_env example_cfg (asc ''/alumnos/search-list'')
            (alumnos_payload 988224 10) True False warm_world)
       = Inl (HTTPException 502 (asc ''ERP call failed (401)''))
   \<and> n_token_calls (snd (erp_post_json example_rt retry_ok_env example_cfg
        (asc ''/alumnos/search-list'') (alumnos_payload 988224 10) True False warm_world)) = 0
   \<and> n_data_calls (snd (erp_post_json example_rt retry_ok_env example_cfg
        (asc ''/alumnos/search-list'') (alumnos_payload 988224 10) True False warm_world)) = 1"
proof -
  have a: "data_endpoint refetch_fails_env 0 = unauthorized"
    by (simp add: refetch_fails_env_def)
  have b: "data_endpoint retry_ok_env 0 = unauthorized"
    by (simp add: retry_ok_env_def)
  show ?thesis
    using a b by (simp add: run_refetch_fails run_no_retry n_data_calls_def n_token_calls_def)
qed

subsection \<open>The student normalizer\<close>

lemma pais_simp: "(if t \<noteq> [] then takeWhile P t else []) = takeWhile P t"
  by simp

lemma join_two:
  "join_str sep (filter (\<lambda>p. p \<noteq> []) [a1, a2])
     = (if a1 = [] then a2 else if a2 = [] then a1 else a1 @ sep @ a2)"
  by simp

lemma normalize_alumno_dict:
  assumes "py_or (dict_get item (asc ''Persona'')) (JDict []) = JDict persona"
  shows "normalize_alumno rt item =
     Inr (JDict
        [(asc ''IdAlumno'', JStr (field_str rt item ''IdIntegracion'')),
         (asc ''Nombre'', JStr (field_str rt persona ''Nombre'')),
         (asc ''Apellidos'',
            JStr (if py_strip (field_str rt persona ''Apellido1'') = []
                  then py_strip (field_str rt persona ''Apellido2'')
                  else if py_strip (field_str rt persona ''Apellido2'') = []
                  then py_strip (field_str rt persona ''Apellido1'')
                  else py_strip (field_str rt persona ''Apellido1'') @ asc '' '' @
                       py_strip (field_str rt persona ''Apellido2''))),
         (asc ''EmailPersonal'', JStr (field_str rt persona ''Email'')),
         (asc ''IdSeguridad'', JStr (field_str rt persona ''IdSeguridad'')),
         (asc ''Telefono'', JStr (field_str rt persona ''Celular'')),
         (asc ''IdPais'',
            JStr (takeWhile (\<lambda>c. c \<noteq> 45) (field_str rt persona ''IdRefTerritorioDomicilio'')))])"
  unfolding normalize_alumno_def assms Let_def join_two pais_simp
  by simp

lemma normalize_alumno_ok_dict:
  "normalize_alumno rt item = Inr out \<Longrightarrow>
   \<exists>persona. py_or (dict_get item (asc ''Persona'')) (JDict []) = JDict persona"
  by (cases "py_or (dict_get item (asc ''Persona'')) (JDict [])")
     (simp_all add: normalize_alumno_def)

lemma takeWhile_prefix:
  "\<exists>rest. s = takeWhile (\<lambda>c. c \<noteq> h) s @ rest \<and> (rest = [] \<or> hd rest = h)"
proof -
  have a: "s = takeWhile (\<lambda>c. c \<noteq> h) s @ dropWhile (\<lambda>c. c \<noteq> h) s" by simp
  have b: "dropWhile (\<lambda>c. c \<noteq> h) s = [] \<or> hd (dropWhile (\<lambda>c. c \<noteq> h) s) = h"
    using hd_dropWhile [of "\<lambda>c. c \<noteq> h" s] by auto
  show ?thesis using a b by blast
qed

lemma takeWhile_no_hyphen: "h \<notin> set (takeWhile (\<lambda>c. c \<noteq> h) s)"
  using set_takeWhileD by fastforce

lemma field_str_absent: "map_of d (asc k) = None \<Longrightarrow> field_str rt d k = []"
  by (simp add: field_str_def dict_get_def py_or_def)

lemma field_str_string: "map_of d (asc k) = Some (JStr s) \<Longrightarrow> field_str rt d k = s"
  by (simp add: field_str_def dict_get_def py_or_def)

lemma normalize_student_ana:
  "normalize_alumno rt student_ana =
        Inr (JDict [(asc ''IdAlumno'', JStr (asc ''988224'')),
                    (asc ''Nombre'', JStr (asc ''Ana'')),
                    (asc ''Apellidos'', JStr perez),
                    (asc ''EmailPersonal'', JStr []),
                    (asc ''IdSeguridad'', JStr []),
                    (asc ''Telefono'', JStr []),
                    (asc ''IdPais'', JStr (asc ''EC''))])"
  by (simp add: normalize_alumno_def student_ana_def perez_def field_str_def dict_get_def
      py_or_def py_strip_def is_space_def asc_def Let_def)

lemma normalize_alumno_not_dict:
  "\<forall>persona. py_or (dict_get item (asc ''Persona'')) (JDict []) \<noteq> JDict persona \<Longrightarrow>
   normalize_alumno rt item = Inl AttributeError"
  by (cases "py_or (dict_get item (asc ''Persona'')) (JDict [])")
     (simp_all add: normalize_alumno_def)

lemma persona_dict_iff:
  "(\<exists>persona. py_or x (JDict []) = JDict persona) \<longleftrightarrow> is_dict x \<or> \<not> truthy x"
  by (cases x) (auto simp: py_or_def)

lemma normalize_alumno_returns_iff:
  "(\<exists>out. normalize_alumno rt item = Inr out)
     \<longleftrightarrow> is_dict (dict_get item (asc ''Persona'')) \<or> \<not> truthy (dict_get item (asc ''Persona''))"
proof -
  have "(\<exists>out. normalize_alumno rt item = Inr out)
     \<longleftrightarrow> (\<exists>persona. py_or (dict_get item (asc ''Persona'')) (JDict []) = JDict persona)"
  proof
    assume "\<exists>out. normalize_alumno rt item = Inr out"
    then show "\<exists>persona. py_or (dict_get item (asc ''Persona'')) (JDict []) = JDict persona"
      using normalize_alumno_ok_dict by blast
  next
    assume "\<exists>persona. py_or (dict_get item (asc ''Persona'')) (JDict []) = JDict persona"
    then obtain persona where
      p: "py_or (dict_get item (asc ''Persona'')) (JDict []) = JDict persona" by blast
    show "\<exists>out. normalize_alumno rt item = Inr out"
      using normalize_alumno_dict [OF p, of rt] by blast
  qed
  then show ?thesis by (simp only: persona_dict_iff)
qed

lemma field_str_empty: "field_str rt [] k = []"
  by (simp add: field_str_def dict_get_def py_or_def)

lemma py_strip_empty: "py_strip [] = []"
  by (simp add: py_strip_def)

lemma normalize_alumno_no_persona:
  assumes "\<not> truthy (dict_get item (asc ''Persona''))"
  shows "normalize_alumno rt item =
     Inr (JDict [(asc ''IdAlumno'', JStr (field_str rt item ''IdIntegracion'')),
                 (asc ''Nombre'', JStr []),
                 (asc ''Apellidos'', JStr []),
                 (asc ''EmailPersonal'', JStr []),
                 (asc ''IdSeguridad'', JStr []),
                 (asc ''Telefono'', JStr []),
                 (asc ''IdPais'', JStr [])])"
proof -
  have p: "py_or (dict_get item (asc ''Persona'')) (JDict []) = JDict []"
    using assms by (simp add: py_or_def)
  show ?thesis
    unfolding normalize_alumno_dict [OF p] by (simp add: field_str_empty py_strip_empty)
qed

text \<open>
  C6. \<open>normalize_alumno\<close> returns exactly when \<open>Persona\<close> is absent, falsy or a dict; on
  any other \<open>Persona\<close> it raises \<open>AttributeError\<close>. Whenever \<open>Persona\<close> is absent, falsy
  or a dict, the result is the record below: \<open>Apellidos\<close> is the two stripped family-name
  parts joined by one space, an empty part being skipped (so no leading or trailing
  space), and \<open>IdPais\<close> is the part of \<open>IdRefTerritorioDomicilio\<close> before its first hyphen:
  it holds no hyphen, and what follows it in the field is nothing or starts with a hyphen.
  It is empty when the field is absent, and every field but \<open>IdAlumno\<close> is empty when
  \<open>Persona\<close> is absent or falsy. On the record with \<open>IdIntegracion\<close> 988224, name Ana,
  first family name \<open>P\<close>, \<open>U+00E9\<close>, \<open>rez\<close>, empty second family name and territory
  \<open>EC-101-102\<close>, the result has \<open>IdAlumno\<close> 988224, \<open>Nombre\<close> Ana, \<open>Apellidos\<close> equal to the
  first family name and \<open>IdPais\<close> \<open>EC\<close>.
\<close>

theorem normalize_alumno_fields:
  "(\<forall>persona. py_or (dict_get item (asc ''Persona'')) (JDict []) = JDict persona \<longrightarrow>
      (let a1 = py_strip (field_str rt persona ''Apellido1'');
           a2 = py_strip (field_str rt persona ''Apellido2'');
           territorio = field_str rt persona ''IdRefTerritorioDomicilio'';
           id_pais = takeWhile (\<lambda>c. c \<noteq> 45) territorio
       in normalize_alumno rt item = Inr (JDict
            [(asc ''IdAlumno'', JStr (field_str rt item ''IdIntegracion'')),
             (asc ''Nombre'', JStr (field_str rt persona ''Nombre'')),
             (asc ''Apellidos'',
                JStr (if a1 = [] then a2 else if a2 = [] then a1 else a1 @ asc '' '' @ a2)),
             (asc ''EmailPersonal'', JStr (field_str rt persona ''Email'')),
             (asc ''IdSeguridad'', JStr (field_str rt persona ''IdSeguridad'')),
             (asc ''Telefono'', JStr (field_str rt persona ''Celular'')),
             (asc ''IdPais'', JStr id_pais)])
          \<and> 45 \<notin> set id_pais
          \<and> (\<exists>rest. territorio = id_pais @ rest \<and> (rest = [] \<or> hd rest = 45))
          \<and> (map_of persona (asc ''IdRefTerritorioDomicilio'') = None \<longrightarrow> id_pais = [])))
   \<and> ((\<forall>persona. py_or (dict_get item (asc ''Persona'')) (JDict []) \<noteq> JDict persona) \<longrightarrow>
        normalize_alumno rt item = Inl AttributeError)
   \<and> ((\<exists>out. normalize_alumno rt item = Inr out)
        \<longleftrightarrow> is_dict (dict_get item (asc ''Persona''))
            \<or> \<not> truthy (dict_get item (asc ''Persona'')))
   \<and> (\<not> truthy (dict_get item (asc ''Persona'')) \<longrightarrow>
        normalize_alumno rt item =
          Inr (JDict [(asc ''IdAlumno'', JStr (field_str rt item ''IdIntegracion'')),
                      (asc ''Nombre'', JStr []),
                      (asc ''Apellidos'', JStr []),
                      (asc ''EmailPersonal'', JStr []),
                      (asc ''IdSeguridad'', JStr []),
                      (asc ''Telefono'', JStr []),
                      (asc ''IdPais'', JStr [])]))
   \<and> normalize_alumno rt student_ana =
        Inr (JDict [(asc ''IdAlumno'', JStr (asc ''988224'')),
                    (asc ''Nombre'', JStr (asc ''Ana'')),
                    (asc ''Apellidos'', JStr perez),
                    (asc ''EmailPersonal'', JStr []),
                    (asc ''IdSeguridad'', JStr []),
                    (asc ''Telefono'', JStr []),
                    (asc ''IdPais'', JStr (asc ''EC''))])"
proof (intro conjI)
  show "\<forall>persona. py_or (dict_get item (asc ''Persona'')) (JDict []) = JDict persona \<longrightarrow>
      (let a1 = py_strip (field_str rt persona ''Apellido1'');
           a2 = py_strip (field_str rt persona ''Apellido2'');
           territorio = field_str rt persona ''IdRefTerritorioDomicilio'';
           id_pais = takeWhile (\<lambda>c. c \<noteq> 45) territorio
       in normalize_alumno rt item = Inr (JDict
            [(asc ''IdAlumno'', JStr (field_str rt item ''IdIntegracion'')),
             (asc ''Nombre'', JStr (field_str rt persona ''Nombre'')),
             (asc ''Apellidos'',
                JStr (if a1 = [] then a2 else if a2 = [] then a1 else a1 @ asc '' '' @ a2)),
             (asc ''EmailPersonal'', JStr (field_str rt persona ''Email'')),
             (asc ''IdSeguridad'', JStr (field_str rt persona ''IdSeguridad'')),
             (asc ''Telefono'', JStr (field_str rt persona ''Celular'')),
             (asc ''IdPais'', JStr id_pais)])
          \<and> 45 \<notin> set id_pais
          \<and> (\<exists>rest. territorio = id_pais @ rest \<and> (rest = [] \<or> hd rest = 45))
          \<and> (map_of persona (asc ''IdRefTerritorioDomicilio'') = None \<longrightarrow> id_pais = []))"
    unfolding Let_def
  proof (intro allI impI conjI)
    fix persona
    assume p: "py_or (dict_get item (asc ''Persona'')) (JDict []) = JDict persona"
    show "normalize_alumno rt item = Inr (JDict
       [(asc ''IdAlumno'', JStr (field_str rt item ''IdIntegracion'')),
        (asc ''Nombre'', JStr (field_str rt persona ''Nombre'')),
        (asc ''Apellidos'',
         JStr (if py_strip (field_str rt persona ''Apellido1'') = []
               then py_strip (field_str rt persona ''Apellido2'')
               else if py_strip (field_str rt persona ''Apellido2'') = []
                    then py_strip (field_str rt persona ''Apellido1'')
                    else py_strip (field_str rt persona ''Apellido1'') @ asc '' '' @
                         py_strip (field_str rt persona ''Apellido2''))),
        (asc ''EmailPersonal'', JStr (field_str rt persona ''Email'')),
        (asc ''IdSeguridad'', JStr (field_str rt persona ''IdSeguridad'')),
        (asc ''Telefono'', JStr (field_str rt persona ''Celular'')),
        (asc ''IdPais'',
         JStr (takeWhile (\<lambda>c. c \<noteq> 45) (field_str rt persona ''IdRefTerritorioDomicilio'')))])"
      by (rule normalize_alumno_dict [OF p])
  next
    fix persona :: "(pystr \<times> json) list"
    show "45 \<notin> set (takeWhile (\<lambda>c. c \<noteq> 45) (field_str rt persona ''IdRefTerritorioDomicilio''))"
      by (rule takeWhile_no_hyphen)
  next
    fix persona :: "(pystr \<times> json) list"
    show "\<exists>rest. field_str rt persona ''IdRefTerritorioDomicilio'' =
            takeWhile (\<lambda>c. c \<noteq> 45) (field_str rt persona ''IdRefTerritorioDomicilio'') @ rest
            \<and> (rest = [] \<or> hd rest = 45)"
      by (rule takeWhile_prefix)
  next
    fix persona :: "(pystr \<times> json) list"
    assume "map_of persona (asc ''IdRefTerritorioDomicilio'') = None"
    then show "takeWhile (\<lambda>c. c \<noteq> 45) (field_str rt persona ''IdRefTerritorioDomicilio'') = []"
      by (simp add: field_str_absent)
  qed
next
  show "(\<forall>persona. py_or (dict_get item (asc ''Persona'')) (JDict []) \<noteq> JDict persona) \<longrightarrow>
        normalize_alumno rt item = Inl AttributeError"
    using normalize_alumno_not_dict by blast
next
  show "(\<exists>out. normalize_alumno rt item = Inr out)
        \<longleftrightarrow> is_dict (dict_get item (asc ''Persona''))
            \<or> \<not> truthy (dict_get item (asc ''Persona''))"
    by (rule normalize_alumno_returns_iff)
next
  show "\<not> truthy (dict_get item (asc ''Persona'')) \<longrightarrow>
        normalize_alumno rt item =
          Inr (JDict [(asc ''IdAlumno'', JStr (field_str rt item ''IdIntegracion'')),
                      (asc ''Nombre'', JStr []),
                      (asc ''Apellidos'', JStr []),
                      (asc ''EmailPersonal'', JStr []),
                      (asc ''IdSeguridad'', JStr []),
                      (asc ''Telefono'', JStr []),
                      (asc ''IdPais'', JStr [])])"
    using normalize_alumno_no_persona by blast
next
  show "normalize_alumno rt student_ana =
        Inr (JDict [(asc ''IdAlumno'', JStr (asc ''988224'')),
                    (asc ''Nombre'', JStr (asc ''Ana'')),
                    (asc ''Apellidos'', JStr perez),
                    (asc ''EmailPersonal'', JStr []),
                    (asc ''IdSeguridad'', JStr []),
                    (asc ''Telefono'', JStr []),
                    (asc ''IdPais'', JStr (asc ''EC''))])"
    by (rule normalize_student_ana)
qed

lemma maria_has_persona:
  "py_or (dict_get student_maria (asc ''Persona'')) (JDict []) = JDict maria_persona"
  by (simp add: student_maria_def maria_persona_def dict_get_def py_or_def asc_def)

lemma maria_fields:
  "JDict
     [(asc ''IdAlumno'', JStr (field_str example_rt student_maria ''IdIntegracion'')),
      (asc ''Nombre'', JStr (field_str example_rt maria_persona ''Nombre'')),
      (asc ''Apellidos'',
         JStr (if py_strip (field_str example_rt maria_persona ''Apellido1'') = []
               then py_strip (field_str example_rt maria_persona ''Apellido2'')
               else if py_strip (field_str example_rt maria_persona ''Apellido2'') = []
               then py_strip (field_str example_rt maria_persona ''Apellido1'')
               else py_strip (field_str example_rt maria_persona ''Apellido1'') @ asc '' '' @
                    py_strip (field_str example_rt maria_persona ''Apellido2''))),
      (asc ''EmailPersonal'', JStr (field_str example_rt maria_persona ''Email'')),
      (asc ''IdSeguridad'', JStr (field_str example_rt maria_persona ''IdSeguridad'')),
      (asc ''Telefono'', JStr (field_str example_rt maria_persona ''Celular'')),
      (asc ''IdPais'',
         JStr (takeWhile (\<lambda>c. c \<noteq> 45)
                 (field_str example_rt maria_persona ''IdRefTerritorioDomicilio'')))]
   = maria_normalized"
  by (simp add: student_maria_def maria_persona_def maria_normalized_def field_str_def
      dict_get_def py_or_def py_strip_def is_space_def asc_def str_of_int_def
      digits_of_nat.simps)

lemma broken_persona:
  "\<forall>persona. py_or (dict_get [(asc ''IdIntegracion'', JStr (asc ''1'')),
                               (asc ''Persona'', JStr (asc ''Ana''))] (asc ''Persona''))
                 (JDict []) \<noteq> JDict persona"
  by (simp add: dict_get_def py_or_def asc_def)

text \<open>
  A record with two family names, surrounded by spaces in the upstream data: its
  \<open>Persona\<close> is a dict, and the result is \<open>Garcia Ruiz\<close> with country \<open>ES\<close>. A record
  whose \<open>Persona\<close> is a string raises.
\<close>

theorem normalize_alumno_fields_witness:
  "py_or (dict_get student_maria (asc ''Persona'')) (JDict []) = JDict maria_persona
   \<and> normalize_alumno example_rt student_maria = Inr maria_normalized
   \<and> maria_normalized =
        JDict [(asc ''IdAlumno'', JStr (asc ''988227'')),
               (asc ''Nombre'', JStr (asc ''Maria'')),
               (asc ''Apellidos'', JStr (asc ''Garcia Ruiz'')),
               (asc ''EmailPersonal'', JStr (asc ''maria.garcia@unir.test'')),
               (asc ''IdSeguridad'', JStr []),
               (asc ''Telefono'', JStr []),
               (asc ''IdPais'', JStr (asc ''ES''))]
   \<and> normalize_alumno example_rt
        [(asc ''IdIntegracion'', JStr (asc ''1'')), (asc ''Persona'', JStr (asc ''Ana''))]
       = Inl AttributeError"
proof (intro conjI)
  show "py_or (dict_get student_maria (asc ''Persona'')) (JDict []) = JDict maria_persona"
    by (rule maria_has_persona)
next
  note t = normalize_alumno_fields [of student_maria example_rt]
  from conjunct1 [OF t] maria_has_persona
  have "let a1 = py_strip (field_str example_rt maria_persona ''Apellido1'');
           a2 = py_strip (field_str example_rt maria_persona ''Apellido2'');
           territorio = field_str example_rt maria_persona ''IdRefTerritorioDomicilio'';
           id_pais = takeWhile (\<lambda>c. c \<noteq> 45) territorio
       in normalize_alumno example_rt student_maria = Inr (JDict
            [(asc ''IdAlumno'', JStr (field_str example_rt student_maria ''IdIntegracion'')),
             (asc ''Nombre'', JStr (field_str example_rt maria_persona ''Nombre'')),
             (asc ''Apellidos'',
                JStr (if a1 = [] then a2 else if a2 = [] then a1 else a1 @ asc '' '' @ a2)),
             (asc ''EmailPersonal'', JStr (field_str example_rt maria_persona ''Email'')),
             (asc ''IdSeguridad'', JStr (field_str example_rt maria_persona ''IdSeguridad'')),
             (asc ''Telefono'', JStr (field_str example_rt maria_persona ''Celular'')),
             (asc ''IdPais'', JStr id_pais)])
          \<and> 45 \<notin> set id_pais
          \<and> (\<exists>rest. territorio = id_pais @ rest \<and> (rest = [] \<or> hd rest = 45))
          \<and> (map_of maria_persona (asc ''IdRefTerritorioDomicilio'') = None \<longrightarrow> id_pais = [])"
    by blast
  then show "normalize_alumno example_rt student_maria = Inr maria_normalized"
    unfolding Let_def maria_fields by (rule conjunct1)
next
  show "maria_normalized =
        JDict [(asc ''IdAlumno'', JStr (asc ''988227'')),
               (asc ''Nombre'', JStr (asc ''Maria'')),
               (asc ''Apellidos'', JStr (asc ''Garcia Ruiz'')),
               (asc ''EmailPersonal'', JStr (asc ''maria.garcia@unir.test'')),
               (asc ''IdSeguridad'', JStr []),
               (asc ''Telefono'', JStr []),
               (asc ''IdPais'', JStr (asc ''ES''))]"
    by (rule maria_normalized_def)
next
  note t = normalize_alumno_fields
    [of "[(asc ''IdIntegracion'', JStr (asc ''1'')), (asc ''Persona'', JStr (asc ''Ana''))]"
        example_rt]
  show "normalize_alumno example_rt
        [(asc ''IdIntegracion'', JStr (asc ''1'')), (asc ''Persona'', JStr (asc ''Ana''))]
       = Inl AttributeError"
    by (rule mp [OF conjunct1 [OF conjunct2 [OF t]] broken_persona])
qed

subsection \<open>The enrollment handler\<close>




lemma effective_id_given:
  "py_strip idAlumno \<noteq> [] \<Longrightarrow>
   (case alumnoId of None \<Rightarrow> py_strip idAlumno
    | Some a \<Rightarrow> if py_strip idAlumno = [] \<and> a \<noteq> [] then py_strip a else py_strip idAlumno)
   = py_strip idAlumno"
  by (simp split: option.splits)









subsection \<open>The student handler and input validation\<close>

text \<open>
  C7, as amended. A non-numeric \<open>idAlumno\<close> fails with 400. For a numeric one that \<open>int\<close>
  converts, the outcome follows the upstream call: its failure is the handler's failure;
  an empty list, or a body that is not a list, gives 404 with \<open>Alumno not found\<close>; a list
  whose first item is an object that \<open>normalize_alumno\<close> accepts gives that normalized
  record with 200; a list whose first item is not an object fails with 502.
\<close>

theorem aic_alumnos_outcomes:
  "(\<not> py_isdigit rt (py_strip idAlumno) \<longrightarrow>
      aic_alumnos rt e cfg idAlumno itemsPerPage w =
        (Inl (HTTPException 400 (asc ''idAlumno must be a numeric string'')), w))
   \<and> (py_isdigit rt (py_strip idAlumno) \<and> py_int_str rt (py_strip idAlumno) = Inr i
       \<and> erp_post_json rt e cfg (asc ''/alumnos/search-list'')
            (alumnos_payload i itemsPerPage) True True w = (res, w1) \<longrightarrow>
       (\<forall>f. res = Inl f \<longrightarrow> aic_alumnos rt e cfg idAlumno itemsPerPage w = (Inl f, w1))
       \<and> (res = Inr (JList []) \<longrightarrow>
            aic_alumnos rt e cfg idAlumno itemsPerPage w =
              (Inr \<lparr>reply_status = 404,
                    reply_content = JDict [(asc ''detail'', JStr (asc ''Alumno not found''))]\<rparr>,
               w1))
       \<and> (\<forall>d. res = Inr d \<and> (\<forall>xs. d \<noteq> JList xs) \<longrightarrow>
            aic_alumnos rt e cfg idAlumno itemsPerPage w =
              (Inr \<lparr>reply_status = 404,
                    reply_content = JDict [(asc ''detail'', JStr (asc ''Alumno not found''))]\<rparr>,
               w1))
       \<and> (\<forall>kv rest out. res = Inr (JList (JDict kv # rest)) \<and> normalize_alumno rt kv = Inr out
            \<longrightarrow> aic_alumnos rt e cfg idAlumno itemsPerPage w =
                  (Inr \<lparr>reply_status = 200, reply_content = out\<rparr>, w1))
       \<and> (\<forall>item rest. res = Inr (JList (item # rest)) \<and> \<not> is_dict item
            \<longrightarrow> aic_alumnos rt e cfg idAlumno itemsPerPage w =
                  (Inl (HTTPException 502 (asc ''Unexpected alumnos response format'')), w1)))"
proof (intro conjI impI allI)
  assume "\<not> py_isdigit rt (py_strip idAlumno)"
  then show "aic_alumnos rt e cfg idAlumno itemsPerPage w =
        (Inl (HTTPException 400 (asc ''idAlumno must be a numeric string'')), w)"
    by (simp add: aic_alumnos_def Let_def)
next
  fix f
  assume h: "py_isdigit rt (py_strip idAlumno) \<and> py_int_str rt (py_strip idAlumno) = Inr i
       \<and> erp_post_json rt e cfg (asc ''/alumnos/search-list'')
            (alumnos_payload i itemsPerPage) True True w = (res, w1)"
    and r: "res = Inl f"
  show "aic_alumnos rt e cfg idAlumno itemsPerPage w = (Inl f, w1)"
    using h r by (simp add: aic_alumnos_def Let_def)
next
  assume h: "py_isdigit rt (py_strip idAlumno) \<and> py_int_str rt (py_strip idAlumno) = Inr i
       \<and> erp_post_json rt e cfg (asc ''/alumnos/search-list'')
            (alumnos_payload i itemsPerPage) True True w = (res, w1)"
    and r: "res = Inr (JList [])"
  show "aic_alumnos rt e cfg idAlumno itemsPerPage w =
              (Inr \<lparr>reply_status = 404,
                    reply_content = JDict [(asc ''detail'', JStr (asc ''Alumno not found''))]\<rparr>,
               w1)"
    using h r by (simp add: aic_alumnos_def Let_def)
next
  fix d
  assume h: "py_isdigit rt (py_strip idAlumno) \<and> py_int_str rt (py_strip idAlumno) = Inr i
       \<and> erp_post_json rt e cfg (asc ''/alumnos/search-list'')
            (alumnos_payload i itemsPerPage) True True w = (res, w1)"
    and r: "res = Inr d \<and> (\<forall>xs. d \<noteq> JList xs)"
  show "aic_alumnos rt e cfg idAlumno itemsPerPage w =
              (Inr \<lparr>reply_status = 404,
                    reply_content = JDict [(asc ''detail'', JStr (asc ''Alumno not found''))]\<rparr>,
               w1)"
    using h r by (cases d) (simp_all add: aic_alumnos_def Let_def)
next
  fix kv rest out
  assume h: "py_isdigit rt (py_strip idAlumno) \<and> py_int_str rt (py_strip idAlumno) = Inr i
       \<and> erp_post_json rt e cfg (asc ''/alumnos/search-list'')
            (alumnos_payload i itemsPerPage) True True w = (res, w1)"
    and r: "res = Inr (JList (JDict kv # rest)) \<and> normalize_alumno rt kv = Inr out"
  show "aic_alumnos rt e cfg idAlumno itemsPerPage w =
                  (Inr \<lparr>reply_status = 200, reply_content = out\<rparr>, w1)"
    using h r by (simp add: aic_alumnos_def Let_def)
next
  fix item rest
  assume h: "py_isdigit rt (py_strip idAlumno) \<and> py_int_str rt (py_strip idAlumno) = Inr i
       \<and> erp_post_json rt e cfg (asc ''/alumnos/search-list'')
            (alumnos_payload i itemsPerPage) True True w = (res, w1)"
    and r: "res = Inr (JList (item # rest)) \<and> \<not> is_dict item"
  show "aic_alumnos rt e cfg idAlumno itemsPerPage w =
                  (Inl (HTTPException 502 (asc ''Unexpected alumnos response format'')), w1)"
    using h r by (cases item) (simp_all add: aic_alumnos_def Let_def)
qed

lemmas id_defs = py_strip_def is_space_def py_isdigit_def is_digit_cp_def py_int_str_def
  int_strip_def is_int_space_def
  digit_val_def asc_def Let_def

lemma id_988224:
  "py_isdigit rt (py_strip (asc ''988224'')) \<and> py_int_str rt (py_strip (asc ''988224'')) = Inr 988224"
  by (simp add: id_defs)

lemma id_abc: "\<not> py_isdigit rt (py_strip (asc ''abc''))"
  by (simp add: id_defs)

lemma id_abc_int: "py_strip (asc ''abc'') \<noteq> [] \<and> py_int_str rt (py_strip (asc ''abc'')) = Inl ValueError"
  by (simp add: id_defs)

lemma serve_alumnos:
  "erp_post_json example_rt (serving_env body) example_cfg
     (asc ''/alumnos/search-list'') (alumnos_payload 988224 10) True True warm_world
   = (Inr body,
      warm_world\<lparr>ticks := 1,
        sent := [DataCall \<lparr>req_url = data_url example_cfg (asc ''/alumnos/search-list''),
                           req_body = alumnos_payload 988224 10,
                           req_headers = call_headers example_rt (JStr (asc ''tok-0'')) True\<rparr>]\<rparr>)"
  by (simp add: erp_post_json_def get_token_def token_is_valid_def finish_call_def
      n_data_calls_def Let_def warm_world_def serving_env_def)

lemma upstream_down:
  "erp_post_json example_rt upstream_down_env example_cfg
     (asc ''/alumnos/search-list'') (alumnos_payload 988224 10) True True warm_world
   = (Inl (HTTPException 502 (asc ''ERP call failed (500)'')),
      warm_world\<lparr>ticks := 1,
        sent := [DataCall \<lparr>req_url = data_url example_cfg (asc ''/alumnos/search-list''),
                           req_body = alumnos_payload 988224 10,
                           req_headers = call_headers example_rt (JStr (asc ''tok-0'')) True\<rparr>]\<rparr>)"
  by (simp add: erp_post_json_def get_token_def token_is_valid_def finish_call_def
      n_data_calls_def Let_def warm_world_def upstream_down_env_def str_of_int_def
      digits_of_nat.simps asc_def)

lemma alumnos_run:
  "py_isdigit rt (py_strip idAlumno) \<Longrightarrow> py_int_str rt (py_strip idAlumno) = Inr i \<Longrightarrow>
   erp_post_json rt e cfg (asc ''/alumnos/search-list'')
            (alumnos_payload i itemsPerPage) True True w = (res, w1) \<Longrightarrow>
   aic_alumnos rt e cfg idAlumno itemsPerPage w =
     (case res of
        Inl f \<Rightarrow> (Inl f, w1)
      | Inr (JList (item # rest)) \<Rightarrow>
          (case item of
             JDict kv \<Rightarrow>
               (case normalize_alumno rt kv of
                  Inl x \<Rightarrow> (Inl (Unhandled x), w1)
                | Inr out \<Rightarrow> (Inr \<lparr>reply_status = 200, reply_content = out\<rparr>, w1))
           | _ \<Rightarrow> (Inl (HTTPException 502 (asc ''Unexpected alumnos response format'')), w1))
      | Inr _ \<Rightarrow>
          (Inr \<lparr>reply_status = 404,
                reply_content = JDict [(asc ''detail'', JStr (asc ''Alumno not found''))]\<rparr>, w1))"
  by (simp add: aic_alumnos_def Let_def split: sum.splits json.splits list.splits)

text \<open>
  C7 as stated fails. The id is numeric and the upstream does not return an empty list,
  yet no normalized record is returned: when the upstream answers 500 the handler fails
  with 502, and when the upstream returns the list \<open>[5]\<close> the handler fails with 502.
\<close>

theorem aic_alumnos_counterexample:
  "py_isdigit example_rt (py_strip (asc ''988224''))
   \<and> fst (erp_post_json example_rt upstream_down_env example_cfg (asc ''/alumnos/search-list'')
            (alumnos_payload 988224 10) True True warm_world) \<noteq> Inr (JList [])
   \<and> fst (aic_alumnos example_rt upstream_down_env example_cfg (asc ''988224'') 10 warm_world)
       = Inl (HTTPException 502 (asc ''ERP call failed (500)''))
   \<and> fst (erp_post_json example_rt (serving_env (JList [JInt 5])) example_cfg
            (asc ''/alumnos/search-list'') (alumnos_payload 988224 10) True True warm_world)
       = Inr (JList [JInt 5])
   \<and> fst (aic_alumnos example_rt (serving_env (JList [JInt 5])) example_cfg (asc ''988224'') 10
            warm_world)
       = Inl (HTTPException 502 (asc ''Unexpected alumnos response format''))"
proof -
  have a: "py_isdigit example_rt (py_strip (asc ''988224''))" using id_988224 by blast
  have b: "py_int_str example_rt (py_strip (asc ''988224'')) = Inr 988224" using id_988224 by blast
  have c: "fst (aic_alumnos example_rt upstream_down_env example_cfg (asc ''988224'') 10 warm_world)
       = Inl (HTTPException 502 (asc ''ERP call failed (500)''))"
    by (simp add: alumnos_run [OF a b upstream_down])
  have d: "fst (aic_alumnos example_rt (serving_env (JList [JInt 5])) example_cfg (asc ''988224'') 10
            warm_world)
       = Inl (HTTPException 502 (asc ''Unexpected alumnos response format''))"
    by (simp add: alumnos_run [OF a b serve_alumnos])
  show ?thesis using a c d by (simp add: upstream_down serve_alumnos)
qed

text \<open>
  The id \<open>abc\<close> gives 400; the id 988224 gives 404 on an empty list and the normalized
  record on a list holding one student.
\<close>

theorem aic_alumnos_outcomes_witness:
  "fst (aic_alumnos example_rt issuing_env example_cfg (asc ''abc'') 10 cold_world)
     = Inl (HTTPException 400 (asc ''idAlumno must be a numeric string''))
   \<and> fst (aic_alumnos example_rt (serving_env (JList [])) example_cfg (asc ''988224'') 10
            warm_world)
       = Inr \<lparr>reply_status = 404,
              reply_content = JDict [(asc ''detail'', JStr (asc ''Alumno not found''))]\<rparr>
   \<and> fst (aic_alumnos example_rt (serving_env (JList [JDict student_ana])) example_cfg
            (asc ''988224'') 10 warm_world)
       = Inr \<lparr>reply_status = 200,
              reply_content = JDict [(asc ''IdAlumno'', JStr (asc ''988224'')),
                    (asc ''Nombre'', JStr (asc ''Ana'')),
                    (asc ''Apellidos'', JStr perez),
                    (asc ''EmailPersonal'', JStr []),
                    (asc ''IdSeguridad'', JStr []),
                    (asc ''Telefono'', JStr []),
                    (asc ''IdPais'', JStr (asc ''EC''))]\<rparr>"
proof -
  have a: "py_isdigit example_rt (py_strip (asc ''988224''))
           \<and> py_int_str example_rt (py_strip (asc ''988224'')) = Inr 988224"
    by (rule id_988224)
  have n: "normalize_alumno example_rt student_ana =
        Inr (JDict [(asc ''IdAlumno'', JStr (asc ''988224'')),
                    (asc ''Nombre'', JStr (asc ''Ana'')),
                    (asc ''Apellidos'', JStr perez),
                    (asc ''EmailPersonal'', JStr []),
                    (asc ''IdSeguridad'', JStr []),
                    (asc ''Telefono'', JStr []),
                    (asc ''IdPais'', JStr (asc ''EC''))])"
    by (simp add: normalize_alumno_def student_ana_def perez_def field_str_def dict_get_def
      py_or_def py_strip_def is_space_def asc_def Let_def)
  note t1 = aic_alumnos_outcomes [where rt = example_rt and idAlumno = "asc ''abc''"
      and e = issuing_env and cfg = example_cfg and itemsPerPage = 10 and w = cold_world]
  note t2 = aic_alumnos_outcomes [where rt = example_rt and idAlumno = "asc ''988224''"
      and e = "serving_env (JList [])" and cfg = example_cfg and itemsPerPage = 10
      and w = warm_world and i = 988224 and res = "Inr (JList [])"]
  note t3 = aic_alumnos_outcomes [where rt = example_rt and idAlumno = "asc ''988224''"
      and e = "serving_env (JList [JDict student_ana])" and cfg = example_cfg
      and itemsPerPage = 10 and w = warm_world and i = 988224
      and res = "Inr (JList [JDict student_ana])"]
  have r1: "fst (aic_alumnos example_rt issuing_env example_cfg (asc ''abc'') 10 cold_world)
     = Inl (HTTPException 400 (asc ''idAlumno must be a numeric string''))"
    using conjunct1 [OF t1] id_abc [of example_rt] by simp
  have r2: "fst (aic_alumnos example_rt (serving_env (JList [])) example_cfg (asc ''988224'') 10
            warm_world)
       = Inr \<lparr>reply_status = 404,
              reply_content = JDict [(asc ''detail'', JStr (asc ''Alumno not found''))]\<rparr>"
    using conjunct2 [OF t2] a serve_alumnos [of "JList []"] by simp
  have r3: "fst (aic_alumnos example_rt (serving_env (JList [JDict student_ana])) example_cfg
            (asc ''988224'') 10 warm_world)
       = Inr \<lparr>reply_status = 200,
              reply_content = JDict [(asc ''IdAlumno'', JStr (asc ''988224'')),
                    (asc ''Nombre'', JStr (asc ''Ana'')),
                    (asc ''Apellidos'', JStr perez),
                    (asc ''EmailPersonal'', JStr []),
                    (asc ''IdSeguridad'', JStr []),
                    (asc ''Telefono'', JStr []),
                    (asc ''IdPais'', JStr (asc ''EC''))]\<rparr>"
    using conjunct2 [OF t3] a serve_alumnos [of "JList [JDict student_ana]"] n by simp
  show ?thesis using r1 r2 r3 by (intro conjI)
qed

lemma aic_matriculas_int_failure:
  assumes "py_strip idAlumno \<noteq> []" and "py_int_str rt (py_strip idAlumno) = Inl x"
  shows "aic_matriculas rt e cfg idAlumno onlyActive itemsPerPage pageIndex alumnoId w
           = (Inl (Unhandled x), w)"
  using assms by (simp add: aic_matriculas_def Let_def effective_id_given)

text \<open>
  C8 at the request \<open>idAlumno=abc\<close>, and at an empty \<open>idAlumno\<close> with \<open>alumnoId=abc\<close>.
  \<open>aic_matriculas\<close> passes the id to \<open>int\<close> with no test, so \<open>ValueError\<close> escapes the
  handler and the framework answers 500; \<open>aic_alumnos\<close> answers 400 to the same id.
\<close>

theorem aic_matriculas_non_numeric_id:
  "aic_matriculas rt e cfg (asc ''abc'') onlyActive itemsPerPage pageIndex alumnoId w
     = (Inl (Unhandled ValueError), w)
   \<and> aic_matriculas rt e cfg [] onlyActive itemsPerPage pageIndex (Some (asc ''abc'')) w
     = (Inl (Unhandled ValueError), w)
   \<and> http_status (fst (aic_matriculas rt e cfg (asc ''abc'') onlyActive itemsPerPage pageIndex
                         alumnoId w)) = 500
   \<and> http_status (fst (aic_alumnos rt e cfg (asc ''abc'') itemsPerPage w)) = 400"
proof -
  have s: "py_strip (asc ''abc'') = asc ''abc''" by (simp add: py_strip_def is_space_def asc_def)
  have n: "asc ''abc'' \<noteq> []" by (simp add: asc_def)
  have v: "py_int_str rt (asc ''abc'') = Inl ValueError"
    using id_abc_int [of rt] by (simp add: s)
  have e0: "py_strip [] = []" by (simp add: py_strip_def)
  have a: "aic_matriculas rt e cfg (asc ''abc'') onlyActive itemsPerPage pageIndex alumnoId w
     = (Inl (Unhandled ValueError), w)"
    using n v by (intro aic_matriculas_int_failure) (simp_all add: s)
  have b: "aic_matriculas rt e cfg [] onlyActive itemsPerPage pageIndex (Some (asc ''abc'')) w
     = (Inl (Unhandled ValueError), w)"
    using n v by (simp add: aic_matriculas_def Let_def s e0)
  have c: "http_status (fst (aic_alumnos rt e cfg (asc ''abc'') itemsPerPage w)) = 400"
    using id_abc [of rt] by (simp add: aic_alumnos_def Let_def)
  show ?thesis using a b c by simp
qed

text \<open>
  The same request on a fresh process: the failure comes before any network call.
\<close>

theorem aic_matriculas_non_numeric_id_witness:
  "fst (aic_matriculas example_rt issuing_env example_cfg (asc ''abc'') True 50 1 None cold_world)
     = Inl (Unhandled ValueError)
   \<and> sent (snd (aic_matriculas example_rt issuing_env example_cfg (asc ''abc'') True 50 1 None
                  cold_world)) = []"
  using aic_matriculas_non_numeric_id [of example_rt issuing_env example_cfg True 50 1 None
      cold_world]
  by (simp add: cold_world_def)

end
